theory Spec2Isabelle
  imports Complex_Main
begin

section \<open>PAL2: the parallel-tempering sampler (PALInferencePTMCMC, PALInferenceRJMCMC)\<close>

text \<open>
  A shallow embedding of the class \<open>PTSampler\<close> of \<open>PALInferencePTMCMC.py\<close> and of
  \<open>RJMCMCSampler.gaussianKDEJump\<close> of \<open>PALInferenceRJMCMC.py\<close>.  Each method becomes a
  function on the attributes of \<open>self\<close>: the small ones take the attributes they read
  and return those they write, the others take and return the record of all of them.
  What the source draws from \<open>numpy.random\<close> or receives over MPI is an argument of the
  function; an exception of the source is a value \<open>Inl e\<close>.
\<close>

subsection \<open>Floating-point values\<close>

text \<open>
  A Python or numpy float is a real number, one of the two infinities, or NaN.  Rounding,
  overflow and the sign of zero are not modelled; the arithmetic on the special values is
  that of IEEE 754, which numpy follows (a numpy division by zero gives an infinity or
  NaN, it does not raise).
\<close>

datatype fl = FNaN | FNegInf | FReal real | FPosInf

fun fneg :: "fl \<Rightarrow> fl" where
  "fneg FNaN = FNaN"
| "fneg FNegInf = FPosInf"
| "fneg (FReal a) = FReal (- a)"
| "fneg FPosInf = FNegInf"

fun fadd :: "fl \<Rightarrow> fl \<Rightarrow> fl" where
  "fadd (FReal a) (FReal b) = FReal (a + b)"
| "fadd FNaN y = FNaN"
| "fadd x FNaN = FNaN"
| "fadd FPosInf FNegInf = FNaN"
| "fadd FNegInf FPosInf = FNaN"
| "fadd FPosInf y = FPosInf"
| "fadd x FPosInf = FPosInf"
| "fadd FNegInf y = FNegInf"
| "fadd x FNegInf = FNegInf"

definition fsub :: "fl \<Rightarrow> fl \<Rightarrow> fl" where
  "fsub x y = fadd x (fneg y)"

text \<open>The sign of an infinity times a real; zero times an infinity is NaN.\<close>

definition inf_times :: "bool \<Rightarrow> real \<Rightarrow> fl" where
  "inf_times positive a =
     (if a = 0 then FNaN else if (0 < a) = positive then FPosInf else FNegInf)"

fun fmul :: "fl \<Rightarrow> fl \<Rightarrow> fl" where
  "fmul (FReal a) (FReal b) = FReal (a * b)"
| "fmul FNaN y = FNaN"
| "fmul x FNaN = FNaN"
| "fmul FPosInf (FReal b) = inf_times True b"
| "fmul FNegInf (FReal b) = inf_times False b"
| "fmul (FReal a) FPosInf = inf_times True a"
| "fmul (FReal a) FNegInf = inf_times False a"
| "fmul FPosInf FPosInf = FPosInf"
| "fmul FNegInf FNegInf = FPosInf"
| "fmul FPosInf FNegInf = FNegInf"
| "fmul FNegInf FPosInf = FNegInf"

fun fdiv :: "fl \<Rightarrow> fl \<Rightarrow> fl" where
  "fdiv (FReal a) (FReal b) =
     (if b = 0 then (if a = 0 then FNaN else if 0 < a then FPosInf else FNegInf)
      else FReal (a / b))"
| "fdiv FNaN y = FNaN"
| "fdiv x FNaN = FNaN"
| "fdiv (FReal a) FPosInf = FReal 0"
| "fdiv (FReal a) FNegInf = FReal 0"
| "fdiv FPosInf (FReal b) = (if 0 \<le> b then FPosInf else FNegInf)"
| "fdiv FNegInf (FReal b) = (if 0 \<le> b then FNegInf else FPosInf)"
| "fdiv x y = FNaN"

text \<open>\<open>x > y\<close> and \<open>x == y\<close>: every comparison with NaN is false.\<close>

fun fgt :: "fl \<Rightarrow> fl \<Rightarrow> bool" where
  "fgt (FReal a) (FReal b) = (b < a)"
| "fgt FNaN y = False"
| "fgt x FNaN = False"
| "fgt x FPosInf = False"
| "fgt FNegInf y = False"
| "fgt FPosInf y = True"
| "fgt x FNegInf = True"

fun feq :: "fl \<Rightarrow> fl \<Rightarrow> bool" where
  "feq FNaN y = False"
| "feq x FNaN = False"
| "feq x y = (x = y)"

definition fle :: "fl \<Rightarrow> fl \<Rightarrow> bool" where
  "fle x y = (fgt y x \<or> feq x y)"

text \<open>\<open>numpy.log\<close>, \<open>numpy.sqrt\<close>, \<open>numpy.exp\<close> and \<open>x ** n\<close> for an integer \<open>n \<ge> 0\<close>.\<close>

fun flog :: "fl \<Rightarrow> fl" where
  "flog (FReal a) = (if a < 0 then FNaN else if a = 0 then FNegInf else FReal (ln a))"
| "flog FPosInf = FPosInf"
| "flog x = FNaN"

fun fsqrt :: "fl \<Rightarrow> fl" where
  "fsqrt (FReal a) = (if a < 0 then FNaN else FReal (sqrt a))"
| "fsqrt FPosInf = FPosInf"
| "fsqrt x = FNaN"

fun fexp :: "fl \<Rightarrow> fl" where
  "fexp (FReal a) = FReal (exp a)"
| "fexp FPosInf = FPosInf"
| "fexp FNegInf = FReal 0"
| "fexp FNaN = FNaN"

primrec fpow :: "fl \<Rightarrow> nat \<Rightarrow> fl" where
  "fpow x 0 = FReal 1"
| "fpow x (Suc n) = fmul x (fpow x n)"

type_synonym vector = "fl list"
type_synonym matrix = "fl list list"

subsection \<open>Exceptions and Python indexing\<close>

datatype error =
    ZeroDivisionError | IndexError | ValueError | KeyError | UnboundLocalError | SystemExit
  | LinAlgError | NameError

definition bind :: "error + 'a \<Rightarrow> ('a \<Rightarrow> error + 'b) \<Rightarrow> error + 'b" where
  "bind m f = (case m of Inl e \<Rightarrow> Inl e | Inr v \<Rightarrow> f v)"

text \<open>
  The position an index \<open>i\<close> names in a sequence of length \<open>n\<close>: a negative index
  counts from the end, and an index out of range names none.
\<close>

definition py_index :: "nat \<Rightarrow> int \<Rightarrow> nat option" where
  "py_index n i =
     (if 0 \<le> i \<and> i < int n then Some (nat i)
      else if - int n \<le> i \<and> i < 0 then Some (nat (int n + i))
      else None)"

text \<open>\<open>xs[i]\<close>, which raises when the index is out of range.\<close>

definition py_get :: "'a list \<Rightarrow> int \<Rightarrow> error + 'a" where
  "py_get xs i =
     (case py_index (length xs) i of None \<Rightarrow> Inl IndexError | Some k \<Rightarrow> Inr (xs ! k))"

text \<open>\<open>a % b\<close> on Python integers: the sign of the divisor, as \<open>mod\<close> on \<open>int\<close>.\<close>

definition py_mod :: "int \<Rightarrow> int \<Rightarrow> error + int" where
  "py_mod a b = (if b = 0 then Inl ZeroDivisionError else Inr (a mod b))"

text \<open>\<open>range(a, b)\<close>.\<close>

definition py_range :: "int \<Rightarrow> int \<Rightarrow> int list" where
  "py_range a b = [a..b - 1]"

text \<open>Mapping a function that may raise over a list, stopping at the first exception.\<close>

fun mapE :: "('a \<Rightarrow> error + 'b) \<Rightarrow> 'a list \<Rightarrow> error + 'b list" where
  "mapE f [] = Inr []"
| "mapE f (x # xs) =
     (case f x of Inl e \<Rightarrow> Inl e
      | Inr y \<Rightarrow> (case mapE f xs of Inl e \<Rightarrow> Inl e | Inr ys \<Rightarrow> Inr (y # ys)))"

subsection \<open>The proposal cycle\<close>

text \<open>
  The entries of \<open>propCycle\<close> are the bound methods of the sampler and the functions a
  user adds; \<open>UserJump k\<close> is the \<open>k\<close>-th user function.
\<close>

datatype proposal =
    covarianceJumpProposalSCAM | covarianceJumpProposalAM | DEJump | KDEJumpProposal
  | UserJump nat

text \<open>
  \<open>addProposalToCycle(func, weight)\<close>: a zero weight prints an error and calls
  \<open>sys.exit()\<close>; otherwise \<open>func\<close> is appended once for each \<open>ii\<close> of
  \<open>range(length, length + weight)\<close>.
\<close>

definition addProposalToCycle :: "proposal list \<Rightarrow> proposal \<Rightarrow> int \<Rightarrow> error + proposal list" where
  "addProposalToCycle propCycle func weight =
     (let len = int (length propCycle) in
      if weight = 0 then Inl SystemExit
      else Inr (foldl (\<lambda>cycle ii. cycle @ [func]) propCycle (py_range len (len + weight))))"

text \<open>
  The values \<open>numpy.random.randint(low, high, size)\<close> can return: \<open>size\<close> integers of
  the half-open interval from \<open>low\<close> to \<open>high\<close>.  It raises \<open>ValueError\<close> when
  \<open>low \<ge> high\<close>.
\<close>

definition randint_ok :: "int \<Rightarrow> int \<Rightarrow> nat \<Rightarrow> int list \<Rightarrow> bool" where
  "randint_ok low high n index \<longleftrightarrow>
     length index = n \<and> (\<forall>i \<in> set index. low \<le> i \<and> i < high)"

text \<open>
  \<open>randomizeProposalCycle()\<close>, with \<open>index\<close> the result of
  \<open>np.random.randint(0, (length-1), length)\<close>.  It returns \<open>randomizedPropCycle\<close>.
\<close>

definition randomizeProposalCycle :: "proposal list \<Rightarrow> int list \<Rightarrow> error + proposal list" where
  "randomizeProposalCycle propCycle index =
     (let len = int (length propCycle) in
      if 0 \<ge> len - 1 then Inl ValueError
      else mapE (\<lambda>ind. py_get propCycle ind) index)"

text \<open>A sequence of \<open>addProposalToCycle\<close> calls, from the first to the last.\<close>

fun addProposals :: "proposal list \<Rightarrow> (proposal \<times> int) list \<Rightarrow> error + proposal list" where
  "addProposals propCycle [] = Inr propCycle"
| "addProposals propCycle ((func, weight) # rest) =
     (case addProposalToCycle propCycle func weight of
        Inl e \<Rightarrow> Inl e
      | Inr cycle \<Rightarrow> addProposals cycle rest)"

subsection \<open>The step size of the covariance kernels\<close>

text \<open>
  \<open>covarianceJumpProposalSCAM\<close> and \<open>covarianceJumpProposalAM\<close> choose \<open>scale\<close> by the
  same cascade on \<open>prob = np.random.rand()\<close>, then multiply it by \<open>sqrt(temp)\<close> when
  \<open>temp <= 100\<close>.
\<close>

definition jump_scale :: "real \<Rightarrow> real" where
  "jump_scale prob =
     (if prob > 0.9 then 0.2
      else if prob > 0.97 then 10
      else 1.0)"

definition temperature_scale :: "fl \<Rightarrow> fl \<Rightarrow> fl" where
  "temperature_scale temp scale =
     (if fle temp (FReal 100) then fmul scale (fsqrt temp) else scale)"

definition scale_SCAM :: "fl \<Rightarrow> real \<Rightarrow> fl" where
  "scale_SCAM temp prob = temperature_scale temp (FReal (jump_scale prob))"

definition scale_AM :: "fl \<Rightarrow> real \<Rightarrow> fl" where
  "scale_AM temp prob = temperature_scale temp (FReal (jump_scale prob))"

subsection \<open>The temperature ladder\<close>

text \<open>
  \<open>temperatureLadder(Tmin, Tmax, tstep)\<close>.  \<open>Tmin\<close>, \<open>Tmax\<close> and \<open>tstep\<close> are Python
  numbers, \<open>None\<close> when unset; \<open>2/self.ndim\<close> and \<open>Tmax/Tmin\<close> are Python divisions and
  raise on a zero divisor.
\<close>

definition temperatureLadder ::
  "nat \<Rightarrow> int \<Rightarrow> real \<Rightarrow> real option \<Rightarrow> real option \<Rightarrow> error + fl list" where
  "temperatureLadder nchain ndim Tmin Tmax tstep =
     (if nchain > 1 then
        bind
          (case tstep of
             Some t \<Rightarrow> Inr (FReal t)
           | None \<Rightarrow>
              (case Tmax of
                 None \<Rightarrow>
                   if ndim = 0 then Inl ZeroDivisionError
                   else Inr (fadd (FReal 1) (fsqrt (FReal (2 / real_of_int ndim))))
               | Some tmax \<Rightarrow>
                   if Tmin = 0 then Inl ZeroDivisionError
                   else Inr (fexp (fdiv (flog (FReal (tmax / Tmin)))
                                        (FReal (real nchain - 1))))))
          (\<lambda>tstep'. Inr (map (\<lambda>ii. fmul (FReal Tmin) (fpow tstep' ii)) [0..<nchain]))
      else Inr [FReal 1])"

subsection \<open>The recursive covariance update\<close>

fun foldE :: "('s \<Rightarrow> 'a \<Rightarrow> error + 's) \<Rightarrow> 's \<Rightarrow> 'a list \<Rightarrow> error + 's" where
  "foldE f s [] = Inr s"
| "foldE f s (x # xs) = (case f s x of Inl e \<Rightarrow> Inl e | Inr s' \<Rightarrow> foldE f s' xs)"

text \<open>
  Elementwise operations on arrays.  Operands of different shapes raise \<open>ValueError\<close>
  (numpy's broadcasting of an axis of length one is not modelled).
\<close>

definition vsub :: "vector \<Rightarrow> vector \<Rightarrow> error + vector" where
  "vsub a b = (if length a = length b then Inr (map2 fsub a b) else Inl ValueError)"

definition outer :: "vector \<Rightarrow> vector \<Rightarrow> matrix" where
  "outer a b = map (\<lambda>x. map (\<lambda>y. fmul x y) b) a"

definition madd :: "matrix \<Rightarrow> matrix \<Rightarrow> error + matrix" where
  "madd A B =
     (if map length A = map length B then Inr (map2 (map2 fadd) A B) else Inl ValueError)"

definition mdiv :: "matrix \<Rightarrow> int \<Rightarrow> matrix" where
  "mdiv A k = map (map (\<lambda>a. fdiv a (FReal (real_of_int k)))) A"

definition zeros :: "nat \<Rightarrow> vector" where
  "zeros n = replicate n (FReal 0)"

definition zeros2 :: "nat \<Rightarrow> nat \<Rightarrow> matrix" where
  "zeros2 m n = replicate m (zeros n)"

text \<open>
  The body of the loop over \<open>jj\<close>: \<open>diff[jj] = row[jj] - mu[jj]; mu[jj] += diff[jj]/it\<close>,
  where \<open>row\<close> is \<open>self._AMbuffer[iter-mem+ii]\<close>.
\<close>

definition welford_component ::
  "vector \<Rightarrow> int \<Rightarrow> vector \<times> vector \<Rightarrow> int \<Rightarrow> error + vector \<times> vector" where
  "welford_component row it dm jj =
     (case dm of (diff, mu) \<Rightarrow>
        bind (py_get row jj) (\<lambda>a.
        bind (py_get mu jj) (\<lambda>m.
          let d = fsub a m in
          Inr (diff[nat jj := d], mu[nat jj := fadd m (fdiv d (FReal (real_of_int it)))]))))"

text \<open>The body of the loop over \<open>ii\<close>, on the triple \<open>(it, mu, M2)\<close>.\<close>

definition welford_step ::
  "nat \<Rightarrow> vector list \<Rightarrow> int \<Rightarrow> int \<Rightarrow> int \<times> vector \<times> matrix \<Rightarrow> int
     \<Rightarrow> error + int \<times> vector \<times> matrix" where
  "welford_step ndim AMbuffer iter mem st ii =
     (case st of (it, mu, M2) \<Rightarrow>
        bind (py_get AMbuffer (iter - mem + ii)) (\<lambda>row.
          let it' = it + 1 in
          bind (foldE (welford_component row it') (zeros ndim, mu) (py_range 0 (int ndim)))
            (\<lambda>dm. case dm of (diff, mu') \<Rightarrow>
               bind (vsub row mu') (\<lambda>dev.
               bind (madd M2 (outer diff dev)) (\<lambda>M2'.
                 Inr (it', mu', M2'))))))"

text \<open>
  \<open>_updateRecursive(iter, mem)\<close>.  It reads \<open>ndim\<close>, \<open>_AMbuffer\<close>, \<open>mu\<close> and \<open>M2\<close> and
  writes \<open>mu\<close>, \<open>M2\<close>, \<open>cov\<close>, \<open>U\<close> and \<open>S\<close>, returned in this order.  \<open>np.linalg.svd\<close>
  is outside the source and is the parameter \<open>svd\<close>: it gives \<open>U\<close> and \<open>S\<close>, or
  raises.  \<open>self.cov\<close> is assigned before it is called.
\<close>

definition updateRecursive ::
  "(matrix \<Rightarrow> error + matrix \<times> vector) \<Rightarrow> nat \<Rightarrow> vector list \<Rightarrow> vector \<Rightarrow> matrix
     \<Rightarrow> int \<Rightarrow> int
     \<Rightarrow> error + vector \<times> matrix \<times> matrix \<times> matrix \<times> vector" where
  "updateRecursive svd ndim AMbuffer mu M2 iter mem =
     (let it = iter - mem;
          M2a = (if it = 0 then zeros2 ndim ndim else M2);
          mua = (if it = 0 then zeros ndim else mu)
      in bind (foldE (welford_step ndim AMbuffer iter mem) (it, mua, M2a) (py_range 0 mem))
           (\<lambda>st. case st of (it', mu', M2') \<Rightarrow>
              let cov = mdiv M2' (it' - 1)
              in bind (svd cov) (\<lambda>US. Inr (mu', M2', cov, fst US, snd US))))"

text \<open>
  Positive semi-definiteness of a covariance matrix: finite entries, square, symmetric,
  and a non-negative quadratic form.
\<close>

definition quadratic_form :: "real list list \<Rightarrow> real list \<Rightarrow> real" where
  "quadratic_form A x = (\<Sum>i<length A. \<Sum>j<length A. x ! i * (A ! i ! j) * x ! j)"

definition psd :: "matrix \<Rightarrow> bool" where
  "psd m \<longleftrightarrow>
     (\<exists>A. m = map (map FReal) A \<and>
        (\<forall>r \<in> set A. length r = length A) \<and>
        (\<forall>i<length A. \<forall>j<length A. A ! i ! j = A ! j ! i) \<and>
        (\<forall>x. length x = length A \<longrightarrow> 0 \<le> quadratic_form A x))"

subsection \<open>The sampler and what one step takes from outside\<close>

text \<open>What a rank sends: the destination, the tag and the object.\<close>

datatype payload =
    PFloat fl | PBool bool | PVector vector | PMatrix matrix | PBuffer "vector list"

type_synonym message = "nat \<times> nat \<times> payload"

text \<open>
  The attributes of a \<open>PTSampler\<close>.  \<open>U_svd\<close> and \<open>S_svd\<close> are \<open>self.U\<close> and \<open>self.S\<close>;
  \<open>chain_arr\<close>, \<open>lnlike_arr\<close> and \<open>lnprob_arr\<close> are \<open>self._chain\<close>, \<open>self._lnlike\<close> and
  \<open>self._lnprob\<close>; \<open>kde\<close> is the sample the Gaussian KDE was fitted to.  \<open>chainfile\<close> is
  the rows appended to the chain file and \<open>cov_file\<close> the matrix saved to \<open>cov.npy\<close>.
  \<open>outbox\<close> lists the messages sent and \<open>logl_calls\<close> the arguments \<open>self.logl\<close> was
  called with: both are histories, not attributes of the source.
\<close>

record sampler =
  MPIrank :: nat
  nchain :: nat
  ndim :: nat
  logl :: "vector \<Rightarrow> fl"
  logp :: "vector \<Rightarrow> fl"
  resume :: bool
  resumeLength :: int
  resumechain :: "fl list list"
  covUpdate :: int
  KDEupdate :: int
  burn :: int
  Tskip :: int
  thin :: int
  isave :: int
  DEweight :: int
  KDEweight :: int
  ladder :: "fl list"
  temp :: fl
  cov :: matrix
  U_svd :: matrix
  S_svd :: vector
  M2 :: matrix
  mu :: vector
  AMbuffer :: "vector list"
  DEbuffer :: "vector list"
  kde :: "vector list option"
  propCycle :: "proposal list"
  randomizedPropCycle :: "proposal list"
  aux :: "(vector \<Rightarrow> vector \<Rightarrow> int \<Rightarrow> fl \<Rightarrow> vector \<times> fl) option"
  naccepted :: fl
  swapProposed :: nat
  nswap_accepted :: nat
  chain_arr :: "vector list"
  lnlike_arr :: "fl list"
  lnprob_arr :: "fl list"
  chainfile :: "(fl \<times> fl \<times> fl \<times> fl \<times> vector) list"
  cov_file :: "matrix option"
  outbox :: "message list"
  logl_calls :: "vector list"

text \<open>
  What one call of \<open>PTMCMCOneStep\<close> takes from outside the sampler: the linear algebra
  of numpy, the answers of MPI (\<open>Iprobe\<close> and \<open>recv\<close>), the random draws, and what the
  proposal function chosen from the cycle returns (the kernels draw their own random
  numbers; their bodies are not part of this model).
\<close>

record step_env =
  svd :: "matrix \<Rightarrow> error + matrix \<times> vector"
  getCovariance :: bool
  recv_cov :: matrix
  getDEbuf :: bool
  recv_DEbuffer :: "vector list"
  index_KDE :: "int list"
  index_DErecv :: "int list"
  index_DEburn :: "int list"
  index_jump :: "int list"
  kernel :: "proposal \<Rightarrow> vector \<Rightarrow> int \<Rightarrow> fl \<Rightarrow> vector \<times> fl"
  rand_hastings :: real
  recv_swapAccepted :: bool
  recv_lnlike :: fl
  recv_p :: vector
  readyToSwap :: bool
  rand_swap :: real

text \<open>\<open>xs[a:b]\<close> and \<open>xs[i] = v\<close>.\<close>

definition py_slice :: "'a list \<Rightarrow> int \<Rightarrow> int \<Rightarrow> 'a list" where
  "py_slice xs a b =
     (let n = int (length xs);
          clip = (\<lambda>i. if i < 0 then max 0 (n + i) else min i n);
          lo = clip a; hi = clip b
      in take (nat (hi - lo)) (drop (nat lo) xs))"

definition py_set :: "'a list \<Rightarrow> int \<Rightarrow> 'a \<Rightarrow> error + 'a list" where
  "py_set xs i v =
     (case py_index (length xs) i of None \<Rightarrow> Inl IndexError | Some k \<Rightarrow> Inr (xs[k := v]))"

text \<open>\<open>int(a/b)\<close> for Python integers with \<open>b \<noteq> 0\<close>: the quotient rounded towards zero.\<close>

definition int_quotient :: "int \<Rightarrow> int \<Rightarrow> int" where
  "int_quotient a b = sgn a * sgn b * (\<bar>a\<bar> div \<bar>b\<bar>)"

text \<open>\<open>range(a, b, step)\<close>; a zero step raises.\<close>

definition py_range3 :: "int \<Rightarrow> int \<Rightarrow> int \<Rightarrow> error + int list" where
  "py_range3 a b step =
     (if step = 0 then Inl ValueError
      else let n = (if step > 0 then (b - a + step - 1) div step
                    else (a - b - step - 1) div (- step))
           in Inr (map (\<lambda>k. a + int k * step) [0..<nat n]))"

definition send_all :: "nat \<Rightarrow> nat \<Rightarrow> payload \<Rightarrow> message list" where
  "send_all n tag obj = map (\<lambda>rank. (rank + 1, tag, obj)) [0..<n - 1]"

subsection \<open>The adaptation at the start of a step\<close>

text \<open>
  \<open>_updateKDE(iter)\<close> and \<open>_updateDEbuffer(iter, burn)\<close>.  The fit of the KDE to the
  sample is the work of \<open>scipy.stats.gaussian_kde\<close> (which refuses a degenerate sample)
  and is not modelled: the KDE is the sample.
\<close>

definition updateKDE :: "sampler \<Rightarrow> int \<Rightarrow> sampler" where
  "updateKDE s iter = s\<lparr>kde := Some (py_slice (AMbuffer s) (burn s) iter)\<rparr>"

definition updateDEbuffer :: "sampler \<Rightarrow> int \<Rightarrow> int \<Rightarrow> sampler" where
  "updateDEbuffer s iter burn' = s\<lparr>DEbuffer := py_slice (AMbuffer s) (iter - burn') iter\<rparr>"

text \<open>An addition to the cycle followed by its randomization, as the source pairs them.\<close>

definition add_and_randomize ::
  "sampler \<Rightarrow> proposal \<Rightarrow> int \<Rightarrow> int list \<Rightarrow> error + sampler" where
  "add_and_randomize s func weight index =
     bind (addProposalToCycle (propCycle s) func weight) (\<lambda>cycle.
     bind (randomizeProposalCycle cycle index) (\<lambda>randomized.
       Inr (s\<lparr>propCycle := cycle, randomizedPropCycle := randomized\<rparr>)))"

text \<open>Lines 337 to 352: the covariance update on rank 0 and its receipt on the others.\<close>

definition adapt_covariance :: "step_env \<Rightarrow> sampler \<Rightarrow> int \<Rightarrow> error + sampler" where
  "adapt_covariance env s iter =
     bind (py_mod (iter - 1) (covUpdate s)) (\<lambda>r.
     bind (if r = 0 \<and> iter - 1 \<noteq> 0 \<and> MPIrank s = 0 then
             bind (updateRecursive (svd env) (ndim s) (AMbuffer s) (mu s) (M2 s)
                     (iter - 1) (covUpdate s))
               (\<lambda>res. case res of (mu', M2', cov', U', S') \<Rightarrow>
                  Inr (s\<lparr>mu := mu', M2 := M2', cov := cov', U_svd := U', S_svd := S',
                          outbox := outbox s @ send_all (nchain s) 111 (PMatrix cov')\<rparr>))
           else Inr s) (\<lambda>s1.
       if getCovariance env \<and> MPIrank s1 > 0 then
         bind (svd env (recv_cov env)) (\<lambda>US.
           Inr (s1\<lparr>cov := recv_cov env, U_svd := fst US, S_svd := snd US\<rparr>))
       else Inr s1))"

text \<open>Lines 354 to 362: the KDE refit, and the addition of the KDE kernel.\<close>

definition adapt_KDE :: "step_env \<Rightarrow> sampler \<Rightarrow> int \<Rightarrow> error + sampler" where
  "adapt_KDE env s iter =
     bind (py_mod (iter - 1) (KDEupdate s)) (\<lambda>r.
       if r = 0 \<and> iter - 1 \<ge> burn s + KDEupdate s \<and> KDEweight s > 0 \<and> MPIrank s = 0 then
         let s1 = updateKDE s (iter - 1) in
         if iter - 1 = burn s1 + KDEupdate s1 then
           add_and_randomize s1 KDEJumpProposal (KDEweight s1) (index_KDE env)
         else Inr s1
       else Inr s)"

text \<open>Lines 365 to 387: the DE buffer, sent by rank 0 and received by the others.\<close>

definition adapt_DEbuffer :: "step_env \<Rightarrow> sampler \<Rightarrow> int \<Rightarrow> error + sampler" where
  "adapt_DEbuffer env s iter =
     bind (py_mod (iter - 1) (burn s)) (\<lambda>r.
       let s1 = (if r = 0 \<and> iter - 1 \<noteq> 0 \<and> MPIrank s = 0 then
                   let s' = updateDEbuffer s (iter - 1) (burn s) in
                   s'\<lparr>outbox := outbox s' @ send_all (nchain s') 222 (PBuffer (DEbuffer s'))\<rparr>
                 else s)
       in if getDEbuf env \<and> MPIrank s1 > 0 then
            let s2 = s1\<lparr>DEbuffer := recv_DEbuffer env\<rparr> in
            if DEJump \<notin> set (propCycle s2) then
              add_and_randomize s2 DEJump (DEweight s2) (index_DErecv env)
            else Inr s2
          else Inr s1)"

text \<open>Lines 389 to 394: after burn-in the cold chain adds the DE kernel.\<close>

definition adapt_burn :: "step_env \<Rightarrow> sampler \<Rightarrow> int \<Rightarrow> error + sampler" where
  "adapt_burn env s iter =
     (if iter - 1 = burn s \<and> MPIrank s = 0 then
        add_and_randomize s DEJump (DEweight s) (index_DEburn env)
      else Inr s)"

definition adapt :: "step_env \<Rightarrow> sampler \<Rightarrow> int \<Rightarrow> error + sampler" where
  "adapt env s iter =
     bind (adapt_covariance env s iter) (\<lambda>s1.
     bind (adapt_KDE env s1 iter) (\<lambda>s2.
     bind (adapt_DEbuffer env s2 iter) (\<lambda>s3.
       adapt_burn env s3 iter)))"

subsection \<open>The proposal and the Metropolis-Hastings decision\<close>

text \<open>
  \<open>_jump(x, iter)\<close>: the proposal function at position \<open>np.mod(iter, length)\<close> of the
  randomized cycle (numpy gives 0 for a zero divisor), the auxiliary jump, and a new
  randomization when \<open>iter % length == 0\<close>.
\<close>

definition jump :: "step_env \<Rightarrow> sampler \<Rightarrow> vector \<Rightarrow> int \<Rightarrow> error + sampler \<times> vector \<times> fl" where
  "jump env s x iter =
     (let len = int (length (propCycle s));
          pos = (if len = 0 then 0 else iter mod len)
      in bind (py_get (randomizedPropCycle s) pos) (\<lambda>func.
           let beta = fdiv (FReal 1) (temp s);
               qq = kernel env func x iter beta;
               qq' = (case aux s of
                        None \<Rightarrow> qq
                      | Some f \<Rightarrow> (let qa = f x (fst qq) iter beta
                                   in (fst qa, fadd (snd qq) (snd qa))))
           in bind (py_mod iter len) (\<lambda>r.
                if r = 0 then
                  bind (randomizeProposalCycle (propCycle s) (index_jump env)) (\<lambda>randomized.
                    Inr (s\<lparr>randomizedPropCycle := randomized\<rparr>, fst qq', snd qq'))
                else Inr (s, fst qq', snd qq'))))"

text \<open>
  Lines 409 to 419: the prior and the likelihood of the candidate \<open>y\<close>.  The result is the
  sampler (with the history of likelihood calls), \<open>newlnlike\<close> and \<open>newlnprob\<close>.
  \<open>newlnlike\<close> is a local variable that is bound only when the likelihood was
  evaluated: \<open>None\<close> is the unbound variable.
\<close>

definition candidate :: "sampler \<Rightarrow> vector \<Rightarrow> sampler \<times> fl option \<times> fl" where
  "candidate s y =
     (let lp = logp s y in
      if feq lp FNegInf then (s, None, FNegInf)
      else let newlnlike = logl s y
           in (s\<lparr>logl_calls := logl_calls s @ [y]\<rparr>, Some newlnlike,
               fadd (fmul (fdiv (FReal 1) (temp s)) newlnlike) lp))"

text \<open>
  Lines 409 to 430: the candidate and the Hastings step, on the current
  \<open>(p0, lnlike0, lnprob0)\<close>.  Accepting reads \<open>newlnlike\<close>, which raises when it is
  unbound.
\<close>

definition hastings ::
  "step_env \<Rightarrow> sampler \<Rightarrow> vector \<Rightarrow> fl \<Rightarrow> fl \<Rightarrow> vector \<Rightarrow> fl
     \<Rightarrow> error + sampler \<times> vector \<times> fl \<times> fl" where
  "hastings env s p0 lnlike0 lnprob0 y qxy =
     (case candidate s y of (s1, newlnlike, newlnprob) \<Rightarrow>
        let diff = fadd (fsub newlnprob lnprob0) qxy
        in if fgt diff (flog (FReal (rand_hastings env))) then
             (case newlnlike of
                None \<Rightarrow> Inl UnboundLocalError
              | Some l \<Rightarrow>
                  Inr (s1\<lparr>naccepted := fadd (naccepted s1) (FReal 1)\<rparr>, y, l, newlnprob))
           else Inr (s1, p0, lnlike0, lnprob0))"

text \<open>Lines 399 to 405: while resuming, the recorded sample is replayed.\<close>

definition replay :: "sampler \<Rightarrow> int \<Rightarrow> error + sampler \<times> vector \<times> fl \<times> fl" where
  "replay s iter =
     bind (py_get (resumechain s) iter) (\<lambda>row.
     bind (py_get row 1) (\<lambda>l.
     bind (py_get row 0) (\<lambda>lp.
     bind (py_get row 2) (\<lambda>acc.
       Inr (s\<lparr>naccepted := fmul (FReal (real_of_int iter)) acc\<rparr>, drop 3 row, l, lp)))))"

subsection \<open>The temperature swap\<close>

text \<open>
  \<open>PTswap(p0, lnlike0, lnprob0, iter)\<close> returns \<open>swapReturn\<close> and the new
  \<open>(p0, lnlike0, lnprob0)\<close>.  The first branch is the colder chain of a pair, the second
  the hotter one, which decides.
\<close>

definition PTswap ::
  "step_env \<Rightarrow> sampler \<Rightarrow> vector \<Rightarrow> fl \<Rightarrow> fl \<Rightarrow> int
     \<Rightarrow> error + sampler \<times> nat \<times> vector \<times> fl \<times> fl" where
  "PTswap env s p0 lnlike0 lnprob0 iter =
     bind (py_mod iter (Tskip s)) (\<lambda>r.
       if r = 0 \<and> int (MPIrank s) < int (nchain s) - 1 then
         let hotter = MPIrank s + 1;
             s1 = s\<lparr>outbox := outbox s @ [(hotter, 0, PFloat lnlike0)]\<rparr>
         in if recv_swapAccepted env then
              let lnlike1 = recv_lnlike env;
                  s2 = s1\<lparr>outbox := outbox s1 @ [(hotter, 0, PVector p0)]\<rparr>;
                  p1 = recv_p env;
                  lnprob1 = fadd (fmul (fdiv (FReal 1) (temp s2)) lnlike1) (logp s2 p1)
              in Inr (s2, 2, p1, lnlike1, lnprob1)
            else Inr (s1, 1, p0, lnlike0, lnprob0)
       else if MPIrank s > 0 then
         if readyToSwap env then
           let newlnlike = recv_lnlike env;
               colder = MPIrank s - 1
           in bind (py_get (ladder s) (int (MPIrank s) - 1)) (\<lambda>T_colder.
              bind (py_get (ladder s) (int (MPIrank s))) (\<lambda>T_own.
                let logChainSwap =
                      fmul (fsub (fdiv (FReal 1) T_colder) (fdiv (FReal 1) T_own))
                           (fsub lnlike0 newlnlike);
                    swapAccepted = fgt logChainSwap (flog (FReal (rand_swap env)));
                    s1 = s\<lparr>outbox := outbox s @ [(colder, 0, PBool swapAccepted)]\<rparr>
                in if swapAccepted then
                     let s2 = s1\<lparr>outbox := outbox s1 @
                                  [(colder, 0, PFloat lnlike0), (colder, 0, PVector p0)]\<rparr>;
                         p1 = recv_p env;
                         lnprob1 = fadd (fmul (fdiv (FReal 1) (temp s2)) newlnlike) (logp s2 p1)
                     in Inr (s2, 0, p1, newlnlike, lnprob1)
                   else Inr (s1, 0, p0, lnlike0, lnprob0)))
         else Inr (s, 0, p0, lnlike0, lnprob0)
       else Inr (s, 0, p0, lnlike0, lnprob0))"

text \<open>Lines 435 to 439: the swap counters.\<close>

definition swap_accounting :: "sampler \<Rightarrow> nat \<Rightarrow> sampler" where
  "swap_accounting s swapReturn =
     (if swapReturn \<noteq> 0 then
        let s1 = s\<lparr>swapProposed := swapProposed s + 1\<rparr>
        in if swapReturn = 2 then s1\<lparr>nswap_accepted := nswap_accepted s1 + 1\<rparr> else s1
      else s)"

subsection \<open>The chain store\<close>

text \<open>\<open>A[i,:] = p0\<close>: the row must exist and have the length of \<open>p0\<close>.\<close>

definition set_row :: "vector list \<Rightarrow> int \<Rightarrow> vector \<Rightarrow> error + vector list" where
  "set_row A i p0 =
     bind (py_get A i) (\<lambda>row.
       if length row = length p0 then py_set A i p0 else Inl ValueError)"

definition writeToFile :: "sampler \<Rightarrow> int \<Rightarrow> error + sampler" where
  "writeToFile s iter =
     bind (py_range3 (iter - isave s) iter (thin s)) (\<lambda>jjs.
     bind (mapE (\<lambda>jj.
             let ind = int_quotient jj (thin s);
                 pt_acc = (if int (MPIrank s) < int (nchain s) - 1 \<and> swapProposed s \<noteq> 0
                           then FReal (real (nswap_accepted s) / real (swapProposed s))
                           else FReal 1)
             in bind (py_get (lnprob_arr s) ind) (\<lambda>lp.
                bind (py_get (lnlike_arr s) ind) (\<lambda>l.
                bind (py_get (chain_arr s) ind) (\<lambda>row.
                  Inr (lp, l, fdiv (naccepted s) (FReal (real_of_int iter)), pt_acc, row)))))
           jjs) (\<lambda>rows.
       Inr (s\<lparr>chainfile := chainfile s @ rows\<rparr>)))"

definition updateChains :: "sampler \<Rightarrow> vector \<Rightarrow> fl \<Rightarrow> fl \<Rightarrow> int \<Rightarrow> error + sampler" where
  "updateChains s p0 lnlike0 lnprob0 iter =
     bind (if MPIrank s = 0 then
             bind (set_row (AMbuffer s) iter p0) (\<lambda>A. Inr (s\<lparr>AMbuffer := A\<rparr>))
           else Inr s) (\<lambda>s1.
     bind (py_mod iter (thin s1)) (\<lambda>r.
     bind (if r = 0 then
             let ind = int_quotient iter (thin s1) in
             bind (set_row (chain_arr s1) ind p0) (\<lambda>C.
             bind (py_set (lnlike_arr s1) ind lnlike0) (\<lambda>L.
             bind (py_set (lnprob_arr s1) ind lnprob0) (\<lambda>P.
               Inr (s1\<lparr>chain_arr := C, lnlike_arr := L, lnprob_arr := P\<rparr>))))
           else Inr s1) (\<lambda>s2.
     bind (py_mod iter (isave s2)) (\<lambda>r2.
       if r2 = 0 \<and> iter > 1 \<and> iter > resumeLength s2 then
         bind (writeToFile s2 iter) (\<lambda>s3. Inr (s3\<lparr>cov_file := Some (cov s3)\<rparr>))
       else Inr s2))))"

subsection \<open>One step, and a run of steps\<close>

definition PTMCMCOneStep ::
  "step_env \<Rightarrow> sampler \<Rightarrow> vector \<Rightarrow> fl \<Rightarrow> fl \<Rightarrow> int
     \<Rightarrow> error + sampler \<times> vector \<times> fl \<times> fl" where
  "PTMCMCOneStep env s p0 lnlike0 lnprob0 iter =
     bind (adapt env s iter) (\<lambda>s1.
     bind (if resume s1 \<and> resumeLength s1 > 0 \<and> iter < resumeLength s1 then replay s1 iter
           else bind (jump env s1 p0 iter) (\<lambda>j. case j of (s2, y, qxy) \<Rightarrow>
                  hastings env s2 p0 lnlike0 lnprob0 y qxy))
       (\<lambda>h. case h of (s3, p1, lnlike1, lnprob1) \<Rightarrow>
     bind (PTswap env s3 p1 lnlike1 lnprob1 iter)
       (\<lambda>w. case w of (s4, swapReturn, p2, lnlike2, lnprob2) \<Rightarrow>
     bind (updateChains (swap_accounting s4 swapReturn) p2 lnlike2 lnprob2 iter) (\<lambda>s5.
       Inr (s5, p2, lnlike2, lnprob2)))))"

text \<open>
  The loop of \<open>sample\<close>, run \<open>n\<close> times from iteration \<open>iter\<close>: \<open>iter += 1\<close>, then one
  step.  \<open>envs i\<close> is what the step of iteration \<open>i\<close> takes from outside.
\<close>

fun run_steps ::
  "(int \<Rightarrow> step_env) \<Rightarrow> nat \<Rightarrow> sampler \<times> vector \<times> fl \<times> fl \<Rightarrow> int
     \<Rightarrow> error + sampler \<times> vector \<times> fl \<times> fl" where
  "run_steps envs 0 st iter = Inr st"
| "run_steps envs (Suc n) (s, p0, lnlike0, lnprob0) iter =
     (case PTMCMCOneStep (envs (iter + 1)) s p0 lnlike0 lnprob0 (iter + 1) of
        Inl e \<Rightarrow> Inl e
      | Inr st' \<Rightarrow> run_steps envs n st' (iter + 1))"

subsection \<open>The trans-dimensional sampler\<close>

text \<open>
  The names the module \<open>PALInferenceRJMCMC\<close> has bound when its class statement runs:
  those of its imports.  \<open>MPI\<close> is not among them.  The class statement evaluates the
  default arguments of the methods, among them \<open>comm=MPI.COMM_WORLD\<close> of \<open>addSampler\<close>,
  and raises \<open>NameError\<close> for the unbound name; then the import of the module fails,
  the class does not exist, and no method of it can be called.
\<close>

definition module_globals :: "string list" where
  "module_globals = [''np'', ''os'', ''sys'', ''time'', ''ptmcmc'', ''bu'', ''ss'']"

definition class_RJMCMCSampler :: "error + unit" where
  "class_RJMCMCSampler = (if ''MPI'' \<in> set module_globals then Inr () else Inl NameError)"

text \<open>
  A \<open>scipy.stats.gaussian_kde\<close> object: the dimension \<open>d\<close> of its data set, its density
  at a point of that dimension, and its sampler (\<open>resample(1).flatten()\<close>, a function of
  the random state, which gives a point of that dimension).
\<close>

record gaussian_kde =
  kde_d :: nat
  density :: "vector \<Rightarrow> fl"
  resample :: "nat \<Rightarrow> vector"

text \<open>
  \<open>evaluate(points)\<close> on a one-dimensional array of length \<open>n\<close>.  A KDE of dimension 1
  takes it as \<open>n\<close> points and returns their \<open>n\<close> densities; a KDE of another dimension
  takes it as one point when \<open>n = d\<close> and raises \<open>ValueError\<close> otherwise.
\<close>

definition evaluate :: "gaussian_kde \<Rightarrow> vector \<Rightarrow> error + vector" where
  "evaluate k points =
     (if kde_d k = 1 then Inr (map (\<lambda>c. density k [c]) points)
      else if length points = kde_d k then Inr [density k points]
      else Inl ValueError)"

text \<open>
  An elementwise operation on two one-dimensional arrays: an array of length one is
  broadcast along the other, and other unequal lengths raise.
\<close>

definition broadcast :: "(fl \<Rightarrow> fl \<Rightarrow> fl) \<Rightarrow> vector \<Rightarrow> vector \<Rightarrow> error + vector" where
  "broadcast f a b =
     (if length a = length b then Inr (map2 f a b)
      else if length a = 1 then Inr (map (\<lambda>y. f (a ! 0) y) b)
      else if length b = 1 then Inr (map (\<lambda>x. f x (b ! 0)) a)
      else Inl ValueError)"

text \<open>
  The attributes of an \<open>RJMCMCSampler\<close>; \<open>samplerDict\<close> holds the dimension and the
  covariance each \<open>PTSampler\<close> was constructed with.
\<close>

record 'm rjmcmc =
  nmodels :: int
  samplerDict :: "'m \<rightharpoonup> nat \<times> matrix"
  TDJumpDict :: "'m \<rightharpoonup> gaussian_kde"

text \<open>
  The bodies of \<open>__init__\<close>, \<open>addSampler\<close> and \<open>constructGaussianKDE\<close> (the latter with
  the fitted KDE in place of the chain): what the statements of each method do once the
  method is entered.
\<close>

definition init_body :: "'m rjmcmc" where
  "init_body = \<lparr>nmodels = 0, samplerDict = Map.empty, TDJumpDict = Map.empty\<rparr>"

definition addSampler_body :: "'m rjmcmc \<Rightarrow> 'm \<Rightarrow> nat \<Rightarrow> matrix \<Rightarrow> 'm rjmcmc" where
  "addSampler_body r model dm c =
     r\<lparr>samplerDict := (samplerDict r)(model \<mapsto> (dm, c)), nmodels := nmodels r + 1\<rparr>"

definition constructGaussianKDE_body :: "'m rjmcmc \<Rightarrow> 'm \<Rightarrow> gaussian_kde \<Rightarrow> 'm rjmcmc" where
  "constructGaussianKDE_body r model k = r\<lparr>TDJumpDict := (TDJumpDict r)(model \<mapsto> k)\<rparr>"

definition lookup :: "('k \<rightharpoonup> 'v) \<Rightarrow> 'k \<Rightarrow> error + 'v" where
  "lookup dict k = (case dict k of None \<Rightarrow> Inl KeyError | Some v \<Rightarrow> Inr v)"

text \<open>
  The body of \<open>gaussianKDEJump(x0, m0, iter)\<close>.  \<open>keys\<close> is the list
  \<open>self.TDJumpDict.keys()\<close> returns (the keys of the dictionary, in an order the source
  does not fix), \<open>ind\<close> the result of \<open>np.random.randint(0, self.nmodels)\<close> and \<open>seed\<close>
  the random state of the resampling.  \<open>p0\<close>, \<open>p1\<close> and \<open>qxy\<close> are arrays.
\<close>

definition gaussianKDEJump_body ::
  "'m rjmcmc \<Rightarrow> 'm list \<Rightarrow> int \<Rightarrow> nat \<Rightarrow> vector \<Rightarrow> 'm \<Rightarrow> error + vector \<times> 'm \<times> vector" where
  "gaussianKDEJump_body r keys ind seed x0 m0 =
     (if 0 \<ge> nmodels r then Inl ValueError
      else
        bind (py_get keys ind) (\<lambda>m1.
        bind (lookup (TDJumpDict r) m1) (\<lambda>k1.
          let x1 = resample k1 seed in
          bind (lookup (TDJumpDict r) m0) (\<lambda>k0.
          bind (evaluate k0 x0) (\<lambda>p0.
          bind (evaluate k0 x1) (\<lambda>p1.
          bind (broadcast fdiv p0 p1) (\<lambda>ratio.
            Inr (x1, m1, map flog ratio))))))))"

text \<open>
  The calls as the source has them: the constructor and the methods of a class that
  exists only if its class statement succeeded.
\<close>

definition RJMCMCSampler :: "error + 'm rjmcmc" where
  "RJMCMCSampler = bind class_RJMCMCSampler (\<lambda>_. Inr init_body)"

definition addSampler :: "'m rjmcmc \<Rightarrow> 'm \<Rightarrow> nat \<Rightarrow> matrix \<Rightarrow> error + 'm rjmcmc" where
  "addSampler r model dm c =
     bind class_RJMCMCSampler (\<lambda>_. Inr (addSampler_body r model dm c))"

definition constructGaussianKDE :: "'m rjmcmc \<Rightarrow> 'm \<Rightarrow> gaussian_kde \<Rightarrow> error + 'm rjmcmc" where
  "constructGaussianKDE r model k =
     bind class_RJMCMCSampler (\<lambda>_. Inr (constructGaussianKDE_body r model k))"

definition gaussianKDEJump ::
  "'m rjmcmc \<Rightarrow> 'm list \<Rightarrow> int \<Rightarrow> nat \<Rightarrow> vector \<Rightarrow> 'm \<Rightarrow> error + vector \<times> 'm \<times> vector" where
  "gaussianKDEJump r keys ind seed x0 m0 =
     bind class_RJMCMCSampler (\<lambda>_. gaussianKDEJump_body r keys ind seed x0 m0)"

text \<open>
  Registering a model, by the bodies: its sampler is added and its KDE constructed.
  \<open>register_all\<close> registers a list of models, the first one first.
\<close>

definition register :: "'m rjmcmc \<Rightarrow> 'm \<times> nat \<times> matrix \<times> gaussian_kde \<Rightarrow> 'm rjmcmc" where
  "register r e =
     (case e of (model, dm, c, k) \<Rightarrow>
        constructGaussianKDE_body (addSampler_body r model dm c) model k)"

definition register_all :: "('m \<times> nat \<times> matrix \<times> gaussian_kde) list \<Rightarrow> 'm rjmcmc" where
  "register_all es = foldl register init_body es"

subsection \<open>A concrete sampler\<close>

text \<open>
  A single cold chain in one dimension with a flat prior and a flat likelihood, as
  \<open>initialize\<close> leaves it with \<open>Niter = 4\<close>, \<open>thin = 1\<close>, \<open>burn = covUpdate = KDEupdate = 8\<close>
  and the weights 1 for SCAM and AM, started at the point 0; and a step that proposes
  the current point.  The examples below vary it.
\<close>

definition sampler0 :: sampler where
  "sampler0 =
     \<lparr>MPIrank = 0, nchain = 1, ndim = 1,
      logl = (\<lambda>x. FReal 0), logp = (\<lambda>x. FReal 0),
      resume = False, resumeLength = 0, resumechain = [],
      covUpdate = 8, KDEupdate = 8, burn = 8, Tskip = 100, thin = 1,
      isave = 1000, DEweight = 20, KDEweight = 30,
      ladder = [FReal 1], temp = FReal 1,
      cov = [[FReal 1]], U_svd = [[FReal 1]], S_svd = [FReal 1],
      M2 = [[FReal 0]], mu = [FReal 0],
      AMbuffer = replicate 4 [FReal 0], DEbuffer = replicate 8 [FReal 0], kde = None,
      propCycle = [covarianceJumpProposalSCAM, covarianceJumpProposalAM],
      randomizedPropCycle = [covarianceJumpProposalSCAM, covarianceJumpProposalSCAM],
      aux = None, naccepted = FReal 0, swapProposed = 0, nswap_accepted = 0,
      chain_arr = replicate 4 [FReal 0], lnlike_arr = replicate 4 (FReal 0),
      lnprob_arr = replicate 4 (FReal 0),
      chainfile = [], cov_file = None, outbox = [], logl_calls = []\<rparr>"

definition env0 :: step_env where
  "env0 =
     \<lparr>svd = (\<lambda>A. Inr (A, [])), getCovariance = False, recv_cov = [],
      getDEbuf = False, recv_DEbuffer = [],
      index_KDE = [], index_DErecv = [], index_DEburn = [], index_jump = [0, 0],
      kernel = (\<lambda>func x iter beta. (x, FReal 0)),
      rand_hastings = 1 / 2,
      recv_swapAccepted = False, recv_lnlike = FReal 0, recv_p = [FReal 0],
      readyToSwap = False, rand_swap = 9 / 10\<rparr>"

text \<open>
  The hotter chain of a pair at temperatures 1 and 2, to which the colder chain has sent
  the log-likelihood 0; the uniform draw of the swap is 0.9.
\<close>

definition hotter_sampler :: sampler where
  "hotter_sampler =
     sampler0\<lparr>MPIrank := 1, nchain := 2, ladder := [FReal 1, FReal 2], temp := FReal 2\<rparr>"

definition hotter_env :: step_env where
  "hotter_env = env0\<lparr>readyToSwap := True, recv_lnlike := FReal 0\<rparr>"

text \<open>The sampler with a prior that excludes the point 2.\<close>

definition bounded_sampler :: sampler where
  "bounded_sampler = sampler0\<lparr>logp := (\<lambda>x. if x = [FReal 2] then FNegInf else FReal 0)\<rparr>"

text \<open>
  The sampler with a covariance update at every iteration, and a sampler of 12
  iterations with a burn-in of 5 and a KDE update every 3 iterations, whose chain
  visits the points 0, 1, 2, ...
\<close>

definition eager_sampler :: sampler where
  "eager_sampler = sampler0\<lparr>covUpdate := 1\<rparr>"

definition offset_sampler :: sampler where
  "offset_sampler =
     sampler0\<lparr>burn := 5, KDEupdate := 3, covUpdate := 1000,
              AMbuffer := [[FReal 0], [FReal 1], [FReal 2], [FReal 3], [FReal 4], [FReal 5],
                           [FReal 6], [FReal 7], [FReal 8], [FReal 9], [FReal 10], [FReal 11]],
              DEbuffer := replicate 5 [FReal 0],
              chain_arr := replicate 12 [FReal 0], lnlike_arr := replicate 12 (FReal 0),
              lnprob_arr := replicate 12 (FReal 0)\<rparr>"

text \<open>
  Two models with their KDEs: model 0 of dimension 1 and model 1 of dimension 2.
\<close>

definition kde_flat :: gaussian_kde where
  "kde_flat = \<lparr>kde_d = 1, density = (\<lambda>x. FReal 1), resample = (\<lambda>n. [FReal 0])\<rparr>"

definition kde_wide :: gaussian_kde where
  "kde_wide =
     \<lparr>kde_d = 2, density = (\<lambda>x. FReal (1 / 2)), resample = (\<lambda>n. [FReal 3, FReal 4])\<rparr>"

definition two_models :: "(nat \<times> nat \<times> matrix \<times> gaussian_kde) list" where
  "two_models = [(0, 1, [[FReal 1]], kde_flat),
                 (1, 2, [[FReal 1, FReal 0], [FReal 0, FReal 1]], kde_wide)]"

section \<open>Properties\<close>

lemma foldl_append_const: "foldl (\<lambda>cycle ii. cycle @ [f]) c xs = c @ replicate (length xs) f"
  by (induction xs arbitrary: c) (simp_all add: replicate_app_Cons_same)

lemma length_py_range: "length (py_range a b) = nat (b - a)"
  by (simp add: py_range_def)

lemma addProposalToCycle_eq:
  "addProposalToCycle c f w = (if w = 0 then Inl SystemExit else Inr (c @ replicate (nat w) f))"
  by (simp add: addProposalToCycle_def foldl_append_const length_py_range Let_def)

lemma mapE_py_get_in_range:
  "\<forall>i \<in> set index. 0 \<le> i \<and> i < int (length c) \<Longrightarrow>
     mapE (\<lambda>ind. py_get c ind) index = Inr (map (\<lambda>i. c ! nat i) index)"
  by (induction index) (auto simp: py_get_def py_index_def Let_def)

lemma addProposals_concat:
  "addProposals c adds = Inr cycle \<Longrightarrow>
     cycle = c @ concat (map (\<lambda>(g, v). replicate (nat v) g) adds)"
proof (induction adds arbitrary: c)
  case Nil
  then show ?case by simp
next
  case (Cons a adds)
  obtain g v where a: "a = (g, v)" by (cases a)
  from Cons.prems a have nz: "v \<noteq> 0"
    by (auto simp: addProposalToCycle_eq split: if_splits)
  with Cons.prems a have "addProposals (c @ replicate (nat v) g) adds = Inr cycle"
    by (simp add: addProposalToCycle_eq)
  from Cons.IH[OF this] a show ?case by simp
qed

text \<open>
  Claim C7, as the code has it: \<open>addProposalToCycle\<close> exits exactly when the weight is
  zero.  A negative weight adds nothing and signals nothing; a positive weight appends
  the function weight-many times.  So, after any sequence of additions to an empty
  cycle, the cycle is the concatenation of the blocks added, and every function in it
  was added with a strictly positive weight.
\<close>

theorem addProposalToCycle_weight:
  "((\<exists>e. addProposalToCycle c f w = Inl e) \<longleftrightarrow> w = 0) \<and>
   (w < 0 \<longrightarrow> addProposalToCycle c f w = Inr c) \<and>
   (0 < w \<longrightarrow> addProposalToCycle c f w = Inr (c @ replicate (nat w) f)) \<and>
   (addProposals [] adds = Inr cycle \<longrightarrow>
      cycle = concat (map (\<lambda>(g, v). replicate (nat v) g) adds) \<and>
      (\<forall>g \<in> set cycle. \<exists>v. 0 < v \<and> (g, v) \<in> set adds))"
proof (intro conjI impI)
  show "(\<exists>e. addProposalToCycle c f w = Inl e) \<longleftrightarrow> w = 0"
    by (simp add: addProposalToCycle_eq)
  show "addProposalToCycle c f w = Inr c" if "w < 0"
    using that by (simp add: addProposalToCycle_eq)
  show "addProposalToCycle c f w = Inr (c @ replicate (nat w) f)" if "0 < w"
    using that by (simp add: addProposalToCycle_eq)
  assume run: "addProposals [] adds = Inr cycle"
  from addProposals_concat[OF run]
  show eq: "cycle = concat (map (\<lambda>(g, v). replicate (nat v) g) adds)" by simp
  show "\<forall>g \<in> set cycle. \<exists>v. 0 < v \<and> (g, v) \<in> set adds"
  proof
    fix g assume "g \<in> set cycle"
    with eq obtain h v where hv: "(h, v) \<in> set adds" and g: "g \<in> set (replicate (nat v) h)"
      by auto
    from g have "g = h" and "0 < nat v" by (auto simp: set_replicate_conv_if split: if_splits)
    with hv show "\<exists>v. 0 < v \<and> (g, v) \<in> set adds" by auto
  qed
qed

text \<open>
  Witness for C7: the weights 2, -3 and 0 on a cycle of one entry, and the cycle built
  from SCAM with weight 2 and AM with weight 1.
\<close>

theorem addProposalToCycle_weight_witness:
  "addProposalToCycle [covarianceJumpProposalSCAM] DEJump 2
     = Inr [covarianceJumpProposalSCAM, DEJump, DEJump] \<and>
   addProposalToCycle [covarianceJumpProposalSCAM] DEJump (- 3) = Inr [covarianceJumpProposalSCAM] \<and>
   (\<exists>e. addProposalToCycle [covarianceJumpProposalSCAM] DEJump 0 = Inl e) \<and>
   (\<exists>v. 0 < v \<and> (covarianceJumpProposalAM, v)
             \<in> set [(covarianceJumpProposalSCAM, 2::int), (covarianceJumpProposalAM, 1)])"
proof -
  let ?adds = "[(covarianceJumpProposalSCAM, 2::int), (covarianceJumpProposalAM, 1)]"
  let ?cycle = "[covarianceJumpProposalSCAM, covarianceJumpProposalSCAM, covarianceJumpProposalAM]"
  have run: "addProposals [] ?adds = Inr ?cycle"
    by (simp add: addProposalToCycle_eq numeral_2_eq_2)
  note t = addProposalToCycle_weight[of "[covarianceJumpProposalSCAM]" DEJump 2 ?adds ?cycle]
  from t have a: "addProposalToCycle [covarianceJumpProposalSCAM] DEJump 2
     = Inr [covarianceJumpProposalSCAM, DEJump, DEJump]"
    by (simp add: numeral_2_eq_2)
  from t run have "\<forall>g \<in> set ?cycle. \<exists>v. 0 < v \<and> (g, v) \<in> set ?adds"
    by blast
  then have d: "\<exists>v. 0 < v \<and> (covarianceJumpProposalAM, v) \<in> set ?adds"
    by simp
  from addProposalToCycle_weight[of "[covarianceJumpProposalSCAM]" DEJump "- 3" "[]" "[]"]
  have b: "addProposalToCycle [covarianceJumpProposalSCAM] DEJump (- 3) = Inr [covarianceJumpProposalSCAM]"
    by simp
  from addProposalToCycle_weight[of "[covarianceJumpProposalSCAM]" DEJump 0 "[]" "[]"]
  have c: "\<exists>e. addProposalToCycle [covarianceJumpProposalSCAM] DEJump 0 = Inl e"
    by simp
  from a b c d show ?thesis by blast
qed

text \<open>
  Counterexample to C7 as stated: the weight -1 is not strictly positive, and the
  call returns the cycle unchanged instead of signalling an error.
\<close>

theorem addProposalToCycle_negative_weight_counterexample:
  "\<not> (0::int) < - 1 \<and>
   addProposalToCycle [covarianceJumpProposalSCAM] DEJump (- 1) = Inr [covarianceJumpProposalSCAM]"
  by (simp add: addProposalToCycle_eq)

text \<open>
  Claim C5, on the code: the indices come from \<open>randint(0, length-1, length)\<close>, whose
  upper bound is exclusive, so no index is \<open>length-1\<close>.  The randomized cycle is read
  from the positions before the last only; when the entries of the cycle are distinct,
  the last one never appears in it.
\<close>

theorem randomize_never_reads_last:
  assumes "2 \<le> length c"
    and "randint_ok 0 (int (length c) - 1) (length c) index"
  shows "\<exists>rc. randomizeProposalCycle c index = Inr rc \<and>
           rc = map (\<lambda>i. c ! nat i) index \<and>
           (\<forall>i \<in> set index. nat i < length c - 1) \<and>
           (distinct c \<longrightarrow> last c \<notin> set rc)"
proof -
  from assms(2) have rng: "\<forall>i \<in> set index. 0 \<le> i \<and> i < int (length c) - 1"
    by (simp add: randint_ok_def)
  then have rng': "\<forall>i \<in> set index. 0 \<le> i \<and> i < int (length c)" by auto
  from assms(1) have eq: "randomizeProposalCycle c index = Inr (map (\<lambda>i. c ! nat i) index)"
    by (simp add: randomizeProposalCycle_def Let_def mapE_py_get_in_range[OF rng'])
  from rng have small: "\<forall>i \<in> set index. nat i < length c - 1" by auto
  have "last c \<notin> set (map (\<lambda>i. c ! nat i) index)" if d: "distinct c"
  proof
    assume "last c \<in> set (map (\<lambda>i. c ! nat i) index)"
    then obtain i where i: "i \<in> set index" and e: "c ! nat i = last c" by auto
    from assms(1) have "c \<noteq> []" by auto
    then have "last c = c ! (length c - 1)" by (rule last_conv_nth)
    moreover from small i have "nat i < length c" by auto
    moreover from assms(1) have "length c - 1 < length c" by auto
    ultimately have "nat i = length c - 1"
      using e d by (simp add: nth_eq_iff_index_eq)
    with small i show False by auto
  qed
  with eq small show ?thesis by simp
qed

text \<open>
  Witness for C5: with the cycle SCAM, AM the only admissible draw is 0, 0, and the
  randomized cycle is SCAM, SCAM.
\<close>

theorem randomize_never_reads_last_witness:
  "randomizeProposalCycle [covarianceJumpProposalSCAM, covarianceJumpProposalAM] [0, 0]
     = Inr [covarianceJumpProposalSCAM, covarianceJumpProposalSCAM]"
proof -
  have h: "randint_ok 0 (int (length [covarianceJumpProposalSCAM, covarianceJumpProposalAM]) - 1)
      (length [covarianceJumpProposalSCAM, covarianceJumpProposalAM]) [0, 0]"
    by (simp add: randint_ok_def)
  from randomize_never_reads_last[OF _ h] show ?thesis by simp
qed

text \<open>
  Claim C2, on the code: the cascade tests \<open>prob > 0.9\<close> first, so the scale is never
  10; at \<open>prob = 0.98\<close>, where both conditions hold, both kernels use the scale 0.2
  (at temperature 1, where the temperature factor is 1).
\<close>

theorem jump_scale_never_large:
  "jump_scale prob \<noteq> 10 \<and>
   jump_scale prob = (if 9 / 10 < prob then 2 / 10 else 1) \<and>
   jump_scale (98 / 100) = 2 / 10 \<and>
   scale_SCAM (FReal 1) (98 / 100) = FReal (2 / 10) \<and>
   scale_AM (FReal 1) (98 / 100) = FReal (2 / 10)"
  by (simp add: jump_scale_def scale_SCAM_def scale_AM_def temperature_scale_def fle_def)

lemma fpow_FReal: "fpow (FReal r) n = FReal (r ^ n)"
  by (induction n) simp_all

text \<open>
  Claim C9, as the code has it: with more than one chain the ladder is
  \<open>T_i = Tmin * tstep^i\<close> for \<open>i = 0, ..., K-1\<close>, where \<open>tstep\<close> is the value passed when
  one is passed (whether or not \<open>Tmax\<close> is set), \<open>1 + sqrt(2/d)\<close> when \<open>Tmax\<close> and
  \<open>tstep\<close> are unset, and \<open>exp(ln(Tmax/Tmin)/(K-1))\<close> when \<open>Tmax\<close> is set and \<open>tstep\<close> is
  unset; with one chain the ladder is \<open>[1]\<close>.  In the two derived cases the dimension
  and the temperatures are positive.
\<close>

theorem temperatureLadder_geometric:
  "(1 < K \<longrightarrow>
      temperatureLadder K d Tmin Tm (Some t)
        = Inr (map (\<lambda>i. FReal (Tmin * t ^ i)) [0..<K])) \<and>
   (1 < K \<and> 0 < d \<longrightarrow>
      temperatureLadder K d Tmin None None
        = Inr (map (\<lambda>i. FReal (Tmin * (1 + sqrt (2 / real_of_int d)) ^ i)) [0..<K])) \<and>
   (1 < K \<and> 0 < Tmin \<and> 0 < Tmax \<longrightarrow>
      temperatureLadder K d Tmin (Some Tmax) None
        = Inr (map (\<lambda>i. FReal (Tmin * exp (ln (Tmax / Tmin) / (real K - 1)) ^ i)) [0..<K])) \<and>
   temperatureLadder 1 d Tmin Tm ts = Inr [FReal 1]"
proof (intro conjI impI)
  assume "1 < K"
  then show "temperatureLadder K d Tmin Tm (Some t)
        = Inr (map (\<lambda>i. FReal (Tmin * t ^ i)) [0..<K])"
    by (simp add: temperatureLadder_def bind_def fpow_FReal)
next
  assume "1 < K \<and> 0 < d"
  then show "temperatureLadder K d Tmin None None
        = Inr (map (\<lambda>i. FReal (Tmin * (1 + sqrt (2 / real_of_int d)) ^ i)) [0..<K])"
    by (simp add: temperatureLadder_def bind_def fpow_FReal)
next
  assume h: "1 < K \<and> 0 < Tmin \<and> 0 < Tmax"
  then have pos: "0 < Tmax / Tmin" by simp
  then have nn: "\<not> Tmax / Tmin < 0" and nz: "Tmax / Tmin \<noteq> 0" by linarith+
  have lg: "flog (FReal (Tmax / Tmin)) = FReal (ln (Tmax / Tmin))"
    using nn nz by (simp del: divide_less_0_iff divide_eq_0_iff)
  from h show "temperatureLadder K d Tmin (Some Tmax) None
        = Inr (map (\<lambda>i. FReal (Tmin * exp (ln (Tmax / Tmin) / (real K - 1)) ^ i)) [0..<K])"
    by (simp add: temperatureLadder_def bind_def fpow_FReal lg del: flog.simps)
next
  show "temperatureLadder 1 d Tmin Tm ts = Inr [FReal 1]"
    by (simp add: temperatureLadder_def)
qed

text \<open>
  Witness for C9: two chains in two dimensions from \<open>Tmin = 1\<close> give 1, 3 with
  \<open>tstep = 3\<close> passed, 1, 2 with nothing set and 1, 4 with \<open>Tmax = 4\<close>; one chain gives 1.
\<close>

theorem temperatureLadder_geometric_witness:
  "temperatureLadder 2 2 1 (Some 4) (Some 3) = Inr [FReal 1, FReal 3] \<and>
   temperatureLadder 2 2 1 None None = Inr [FReal 1, FReal 2] \<and>
   temperatureLadder 2 2 1 (Some 4) None = Inr [FReal 1, FReal 4] \<and>
   temperatureLadder 1 2 1 (Some 4) None = Inr [FReal 1]"
proof -
  have u: "[0..<2] = [0, 1]" by (simp add: upt_rec)
  from temperatureLadder_geometric[where K = 2 and d = 2 and Tmin = 1 and Tmax = 4
      and Tm = "Some 4" and t = 3 and ts = None]
  show ?thesis by (simp add: u)
qed

text \<open>
  Counterexample to C9 as stated: with \<open>Tmax = 4\<close> set and \<open>tstep = 3\<close> passed, the
  claimed step is \<open>exp(ln(4/1)/(2-1)) = 4\<close> and the claimed ladder 1, 4; the code uses the
  passed step and returns 1, 3.
\<close>

theorem temperatureLadder_passed_tstep_counterexample:
  "exp (ln (4 / 1) / (real 2 - 1)) = (4 :: real) \<and>
   temperatureLadder 2 2 1 (Some 4) (Some 3) = Inr [FReal 1, FReal 3] \<and>
   temperatureLadder 2 2 1 (Some 4) (Some 3)
     \<noteq> Inr (map (\<lambda>i. FReal (1 * exp (ln (4 / 1) / (real 2 - 1)) ^ i)) [0..<2])"
proof -
  have u: "[0..<2] = [0, 1]" by (simp add: upt_rec)
  have e: "exp (ln (4 / 1) / (real 2 - 1)) = (4 :: real)" by simp
  have l: "temperatureLadder 2 2 1 (Some 4) (Some 3) = Inr [FReal 1, FReal 3]"
    by (simp add: temperatureLadder_def bind_def fpow_FReal u)
  from e l show ?thesis by (simp add: u)
qed

lemma py_get_nth: "i < length xs \<Longrightarrow> py_get xs (int i) = Inr (xs ! i)"
  by (simp add: py_get_def py_index_def)

text \<open>
  Claim C1, as the code has it: when the hotter rank \<open>r\<close> has received the colder
  neighbour's log-likelihood \<open>Lc\<close>, it accepts the swap iff \<open>log u < \<alpha>\<close> (with
  \<open>log 0 = -inf\<close>) for
  \<open>\<alpha> = (1/T_{r-1} - 1/T_r) * (Lr - Lc)\<close>, where \<open>Lr\<close> is its own log-likelihood: the
  difference of the log-likelihoods is its own minus the colder chain's.  It sends the
  decision to rank \<open>r-1\<close> and, on acceptance, its log-likelihood and its parameters, and
  takes the colder chain's.
\<close>

theorem PTswap_hotter_decision:
  assumes rank: "0 < MPIrank s" "MPIrank s < length (ladder s)"
    and branch: "Tskip s \<noteq> 0"
      "\<not> (iter mod Tskip s = 0 \<and> int (MPIrank s) < int (nchain s) - 1)"
    and ready: "readyToSwap env"
    and T: "ladder s ! (MPIrank s - 1) = FReal Tc" "ladder s ! MPIrank s = FReal Tr"
      "Tc \<noteq> 0" "Tr \<noteq> 0"
    and L: "lnlike0 = FReal Lr" "recv_lnlike env = FReal Lc"
    and u: "0 \<le> rand_swap env"
  shows "PTswap env s p0 lnlike0 lnprob0 iter =
     (if rand_swap env = 0 \<or> ln (rand_swap env) < (1 / Tc - 1 / Tr) * (Lr - Lc)
      then Inr (s\<lparr>outbox := outbox s @
                    [(MPIrank s - 1, 0, PBool True), (MPIrank s - 1, 0, PFloat lnlike0),
                     (MPIrank s - 1, 0, PVector p0)]\<rparr>,
                0, recv_p env, FReal Lc,
                fadd (fmul (fdiv (FReal 1) (temp s)) (FReal Lc)) (logp s (recv_p env)))
      else Inr (s\<lparr>outbox := outbox s @ [(MPIrank s - 1, 0, PBool False)]\<rparr>,
                0, p0, lnlike0, lnprob0))"
proof -
  from rank have g1: "py_get (ladder s) (int (MPIrank s) - 1) = Inr (FReal Tc)"
    using py_get_nth[of "MPIrank s - 1" "ladder s"] T(1) by (simp add: of_nat_diff)
  from rank have g2: "py_get (ladder s) (int (MPIrank s)) = Inr (FReal Tr)"
    using py_get_nth[of "MPIrank s" "ladder s"] T(2) by simp
  define acc where
    "acc \<longleftrightarrow> rand_swap env = 0 \<or> ln (rand_swap env) < (1 / Tc - 1 / Tr) * (Lr - Lc)"
  have dec: "fgt (fmul (fsub (fdiv (FReal 1) (FReal Tc)) (fdiv (FReal 1) (FReal Tr)))
                   (fsub (FReal Lr) (FReal Lc))) (flog (FReal (rand_swap env))) = acc"
    unfolding acc_def using T(3,4) u by (auto simp: fsub_def)
  have "PTswap env s p0 lnlike0 lnprob0 iter =
     (if acc
      then Inr (s\<lparr>outbox := outbox s @
                    [(MPIrank s - 1, 0, PBool True), (MPIrank s - 1, 0, PFloat lnlike0),
                     (MPIrank s - 1, 0, PVector p0)]\<rparr>,
                0, recv_p env, FReal Lc,
                fadd (fmul (fdiv (FReal 1) (temp s)) (FReal Lc)) (logp s (recv_p env)))
      else Inr (s\<lparr>outbox := outbox s @ [(MPIrank s - 1, 0, PBool False)]\<rparr>,
                0, p0, lnlike0, lnprob0))"
    unfolding PTswap_def using branch rank ready
    by (simp add: bind_def py_mod_def g1 g2 L dec Let_def
        del: fgt.simps flog.simps fmul.simps fdiv.simps)
  then show ?thesis unfolding acc_def .
qed


lemma ln_nine_tenths: "- 50 \<le> ln (9 / 10 :: real)"
proof -
  have "51 \<le> exp (50 :: real)" using exp_ge_add_one_self[of "50::real"] by simp
  then have "exp (- 50 :: real) \<le> 1 / 51"
    by (simp add: exp_minus inverse_eq_divide field_simps)
  then have "exp (- 50 :: real) \<le> 9 / 10" by simp
  then show ?thesis by (subst ln_ge_iff) simp_all
qed

lemma ln_nine_tenths_less: "ln (9 / 10 :: real) < 50"
proof -
  have "ln (9 / 10 :: real) < 0" by (rule ln_less_zero) simp_all
  then show ?thesis by linarith
qed

text \<open>
  Witness for C1: temperatures 1 and 2, own log-likelihood 100, the colder chain's 0 and
  \<open>u = 0.9\<close>; \<open>\<alpha> = 50\<close> and the swap is accepted.
\<close>

theorem PTswap_hotter_decision_witness:
  "PTswap hotter_env hotter_sampler [FReal 1] (FReal 100) (FReal 50) 100 =
     Inr (hotter_sampler\<lparr>outbox := [(0, 0, PBool True), (0, 0, PFloat (FReal 100)), (0, 0, PVector [FReal 1])]\<rparr>,
          0, [FReal 0], FReal 0, FReal 0)"
proof -
  have "PTswap hotter_env hotter_sampler [FReal 1] (FReal 100) (FReal 50) 100 =
     (if rand_swap hotter_env = 0 \<or> ln (rand_swap hotter_env) < (1 / 1 - 1 / 2) * (100 - 0)
      then Inr (hotter_sampler\<lparr>outbox := outbox hotter_sampler @
                    [(MPIrank hotter_sampler - 1, 0, PBool True), (MPIrank hotter_sampler - 1, 0, PFloat (FReal 100)),
                     (MPIrank hotter_sampler - 1, 0, PVector [FReal 1])]\<rparr>,
                0, recv_p hotter_env, FReal 0,
                fadd (fmul (fdiv (FReal 1) (temp hotter_sampler)) (FReal 0)) (logp hotter_sampler (recv_p hotter_env)))
      else Inr (hotter_sampler\<lparr>outbox := outbox hotter_sampler @ [(MPIrank hotter_sampler - 1, 0, PBool False)]\<rparr>,
                0, [FReal 1], FReal 100, FReal 50))"
    by (rule PTswap_hotter_decision) (simp_all add: hotter_sampler_def hotter_env_def sampler0_def env0_def)
  then show ?thesis
    by (simp add: hotter_sampler_def hotter_env_def sampler0_def env0_def ln_nine_tenths_less)
qed

text \<open>
  Counterexample to C1 as stated: at the same input the claimed
  \<open>\<alpha> = (1/T_{r-1} - 1/T_r) * (Lc - Lr) = -50\<close> is not above \<open>log 0.9\<close>, so the claim
  rejects the swap, and the code accepts it.
\<close>

theorem PTswap_claimed_sign_counterexample:
  "rand_swap hotter_env = 9 / 10 \<and>
   \<not> ln (9 / 10) < (1 / 1 - 1 / 2) * (0 - 100 :: real) \<and>
   PTswap hotter_env hotter_sampler [FReal 1] (FReal 100) (FReal 50) 100 =
     Inr (hotter_sampler\<lparr>outbox := [(0, 0, PBool True), (0, 0, PFloat (FReal 100)), (0, 0, PVector [FReal 1])]\<rparr>,
          0, [FReal 0], FReal 0, FReal 0)"
proof -
  have a: "\<not> ln (9 / 10) < (1 / 1 - 1 / 2) * (0 - 100 :: real)"
    using ln_nine_tenths by simp
  have r: "rand_swap hotter_env = 9 / 10"
    by (simp add: hotter_env_def env0_def)
  have b: "PTswap hotter_env hotter_sampler [FReal 1] (FReal 100) (FReal 50) 100 =
     Inr (hotter_sampler\<lparr>outbox := [(0, 0, PBool True), (0, 0, PFloat (FReal 100)), (0, 0, PVector [FReal 1])]\<rparr>,
          0, [FReal 0], FReal 0, FReal 0)"
    by (simp add: PTswap_def hotter_sampler_def hotter_env_def sampler0_def env0_def bind_def py_mod_def py_get_def py_index_def
        fsub_def Let_def ln_nine_tenths_less)
  from r a b show ?thesis by blast
qed

lemma minus_infinity_never_exceeds:
  "fgt (fadd (fsub FNegInf lnprob0) qxy) z = False"
  by (cases lnprob0; cases qxy; cases z) (simp_all add: fsub_def)

text \<open>
  Claim C3: when the candidate \<open>y\<close> has \<open>logp(y) = -inf\<close>, the likelihood is not called
  for it (the sampler, with its history of likelihood calls, is unchanged, and
  \<open>newlnlike\<close> stays unbound), its tempered posterior is \<open>-inf\<close>, and the Hastings step
  returns the current \<open>(p0, lnlike0, lnprob0)\<close> with the sampler, so also \<open>naccepted\<close>,
  unchanged; the result is a value, not an exception, whatever the current posterior,
  the proposal ratio and the uniform draw are.
\<close>

theorem prior_rejection:
  assumes "logp s y = FNegInf"
  shows "candidate s y = (s, None, FNegInf) \<and>
         hastings env s p0 lnlike0 lnprob0 y qxy = Inr (s, p0, lnlike0, lnprob0)"
  using assms
  by (simp add: candidate_def hastings_def minus_infinity_never_exceeds del: fgt.simps)


text \<open>
  Witness for C3: the candidate 2 under the prior that excludes it, from the point 1.
\<close>

theorem prior_rejection_witness:
  "candidate bounded_sampler [FReal 2] = (bounded_sampler, None, FNegInf) \<and>
   hastings env0 bounded_sampler [FReal 1] (FReal 0) (FReal 0) [FReal 2] (FReal 0)
     = Inr (bounded_sampler, [FReal 1], FReal 0, FReal 0) \<and>
   logl_calls bounded_sampler = [] \<and> naccepted bounded_sampler = FReal 0"
proof -
  have h: "logp bounded_sampler [FReal 2] = FNegInf" by (simp add: bounded_sampler_def)
  from prior_rejection[OF h, of env0 "[FReal 1]" "FReal 0" "FReal 0" "FReal 0"]
  show ?thesis by (simp add: bounded_sampler_def sampler0_def)
qed

text \<open>What no part of a step but the swap accounting writes.\<close>

lemma add_and_randomize_frame:
  "add_and_randomize s f w index = Inr s' \<Longrightarrow>
     MPIrank s' = MPIrank s \<and> nchain s' = nchain s \<and>
     swapProposed s' = swapProposed s \<and> nswap_accepted s' = nswap_accepted s"
  by (auto simp: add_and_randomize_def bind_def split: sum.splits)

lemma adapt_covariance_frame:
  "adapt_covariance env s iter = Inr s' \<Longrightarrow>
     MPIrank s' = MPIrank s \<and> nchain s' = nchain s \<and>
     swapProposed s' = swapProposed s \<and> nswap_accepted s' = nswap_accepted s"
  by (auto simp: adapt_covariance_def bind_def split: sum.splits if_splits prod.splits)

lemma adapt_KDE_frame:
  "adapt_KDE env s iter = Inr s' \<Longrightarrow>
     MPIrank s' = MPIrank s \<and> nchain s' = nchain s \<and>
     swapProposed s' = swapProposed s \<and> nswap_accepted s' = nswap_accepted s"
  by (auto simp: adapt_KDE_def bind_def updateKDE_def Let_def
      split: sum.splits if_splits dest!: add_and_randomize_frame)

lemma adapt_DEbuffer_frame:
  "adapt_DEbuffer env s iter = Inr s' \<Longrightarrow>
     MPIrank s' = MPIrank s \<and> nchain s' = nchain s \<and>
     swapProposed s' = swapProposed s \<and> nswap_accepted s' = nswap_accepted s"
  by (auto simp: adapt_DEbuffer_def bind_def updateDEbuffer_def Let_def
      split: sum.splits if_splits dest!: add_and_randomize_frame)

lemma adapt_burn_frame:
  "adapt_burn env s iter = Inr s' \<Longrightarrow>
     MPIrank s' = MPIrank s \<and> nchain s' = nchain s \<and>
     swapProposed s' = swapProposed s \<and> nswap_accepted s' = nswap_accepted s"
  by (auto simp: adapt_burn_def split: if_splits dest!: add_and_randomize_frame)

lemma adapt_frame:
  assumes "adapt env s iter = Inr s'"
  shows "MPIrank s' = MPIrank s \<and> nchain s' = nchain s \<and>
     swapProposed s' = swapProposed s \<and> nswap_accepted s' = nswap_accepted s"
proof -
  from assms obtain s1 s2 s3 where
    "adapt_covariance env s iter = Inr s1" "adapt_KDE env s1 iter = Inr s2"
    "adapt_DEbuffer env s2 iter = Inr s3" "adapt_burn env s3 iter = Inr s'"
    by (auto simp: adapt_def bind_def split: sum.splits)
  then show ?thesis
    using adapt_covariance_frame adapt_KDE_frame adapt_DEbuffer_frame adapt_burn_frame
    by metis
qed

lemma jump_frame:
  "jump env s x iter = Inr (s', y, qxy) \<Longrightarrow>
     MPIrank s' = MPIrank s \<and> nchain s' = nchain s \<and>
     swapProposed s' = swapProposed s \<and> nswap_accepted s' = nswap_accepted s"
  by (auto simp: jump_def bind_def Let_def split: sum.splits if_splits)

lemma hastings_frame:
  "hastings env s p0 l0 lp0 y qxy = Inr (s', p1, l1, lp1) \<Longrightarrow>
     MPIrank s' = MPIrank s \<and> nchain s' = nchain s \<and>
     swapProposed s' = swapProposed s \<and> nswap_accepted s' = nswap_accepted s"
  by (auto simp: hastings_def candidate_def Let_def split: if_splits option.splits)

lemma replay_frame:
  "replay s iter = Inr (s', p1, l1, lp1) \<Longrightarrow>
     MPIrank s' = MPIrank s \<and> nchain s' = nchain s \<and>
     swapProposed s' = swapProposed s \<and> nswap_accepted s' = nswap_accepted s"
  by (auto simp: replay_def bind_def split: sum.splits)

lemma writeToFile_frame:
  "writeToFile s iter = Inr s' \<Longrightarrow>
     MPIrank s' = MPIrank s \<and> nchain s' = nchain s \<and>
     swapProposed s' = swapProposed s \<and> nswap_accepted s' = nswap_accepted s"
  by (auto simp: writeToFile_def bind_def split: sum.splits)

lemma updateChains_frame:
  "updateChains s p0 l0 lp0 iter = Inr s' \<Longrightarrow>
     MPIrank s' = MPIrank s \<and> nchain s' = nchain s \<and>
     swapProposed s' = swapProposed s \<and> nswap_accepted s' = nswap_accepted s"
  by (auto simp: updateChains_def bind_def Let_def split: sum.splits if_splits
      dest!: writeToFile_frame)

lemma PTswap_one_chain:
  assumes "nchain s = 1" "MPIrank s = 0" "Tskip s \<noteq> 0"
  shows "PTswap env s p0 lnlike0 lnprob0 iter = Inr (s, 0, p0, lnlike0, lnprob0)"
  using assms by (simp add: PTswap_def bind_def py_mod_def)

lemma PTswap_one_chain_returns:
  assumes "nchain s = 1" "MPIrank s = 0"
    and "PTswap env s p0 lnlike0 lnprob0 iter = Inr r"
  shows "r = (s, 0, p0, lnlike0, lnprob0)"
  using assms by (auto simp: PTswap_def bind_def py_mod_def split: if_splits)

lemma PTMCMCOneStep_one_chain:
  assumes one: "nchain s = 1" "MPIrank s = 0"
    and step: "PTMCMCOneStep env s p0 l0 lp0 iter = Inr (s', p1, l1, lp1)"
  shows "MPIrank s' = MPIrank s \<and> nchain s' = nchain s \<and>
     swapProposed s' = swapProposed s \<and> nswap_accepted s' = nswap_accepted s"
proof -
  from step obtain sa where a: "adapt env s iter = Inr sa"
    by (auto simp: PTMCMCOneStep_def bind_def split: sum.splits)
  note fa = adapt_frame[OF a]
  from step a obtain sb pb lb lpb where
    b: "(if resume sa \<and> resumeLength sa > 0 \<and> iter < resumeLength sa then replay sa iter
         else bind (jump env sa p0 iter) (\<lambda>j. case j of (s2, y, qxy) \<Rightarrow>
                hastings env s2 p0 l0 lp0 y qxy)) = Inr (sb, pb, lb, lpb)"
    by (auto simp: PTMCMCOneStep_def bind_def split: sum.splits)
  have fb: "MPIrank sb = MPIrank sa \<and> nchain sb = nchain sa \<and>
     swapProposed sb = swapProposed sa \<and> nswap_accepted sb = nswap_accepted sa"
  proof (cases "resume sa \<and> resumeLength sa > 0 \<and> iter < resumeLength sa")
    case True
    with b show ?thesis using replay_frame by auto
  next
    case False
    with b obtain sj y qxy where j: "jump env sa p0 iter = Inr (sj, y, qxy)"
      and h: "hastings env sj p0 l0 lp0 y qxy = Inr (sb, pb, lb, lpb)"
      by (auto simp: bind_def split: sum.splits)
    from jump_frame[OF j] hastings_frame[OF h] show ?thesis by simp
  qed
  from step a b obtain w where w: "PTswap env sb pb lb lpb iter = Inr w"
    by (auto simp: PTMCMCOneStep_def bind_def split: sum.splits if_splits)
  from fa fb one have one_b: "nchain sb = 1" "MPIrank sb = 0" by simp_all
  from PTswap_one_chain_returns[OF one_b w] have w_eq: "w = (sb, 0, pb, lb, lpb)" .
  from step a b w w_eq have u: "updateChains (swap_accounting sb 0) pb lb lpb iter = Inr s'"
    by (auto simp: PTMCMCOneStep_def bind_def split: sum.splits if_splits)
  from updateChains_frame[OF u] fa fb show ?thesis
    by (simp add: swap_accounting_def)
qed

lemma run_steps_one_chain:
  "nchain s = 1 \<Longrightarrow> MPIrank s = 0 \<Longrightarrow>
   run_steps envs n (s, p0, l0, lp0) iter = Inr (s', p1, l1, lp1) \<Longrightarrow>
   swapProposed s' = swapProposed s \<and> nswap_accepted s' = nswap_accepted s"
proof (induction n arbitrary: s p0 l0 lp0 iter)
  case 0
  then show ?case by simp
next
  case (Suc n)
  from Suc.prems(3) obtain sa pa la lpa where
    st: "PTMCMCOneStep (envs (iter + 1)) s p0 l0 lp0 (iter + 1) = Inr (sa, pa, la, lpa)"
    and rest: "run_steps envs n (sa, pa, la, lpa) (iter + 1) = Inr (s', p1, l1, lp1)"
    by (auto split: sum.splits)
  from PTMCMCOneStep_one_chain[OF Suc.prems(1,2) st]
  have f: "MPIrank sa = MPIrank s" "nchain sa = nchain s"
    "swapProposed sa = swapProposed s" "nswap_accepted sa = nswap_accepted s" by simp_all
  with Suc.prems have "nchain sa = 1" "MPIrank sa = 0" by simp_all
  from Suc.IH[OF this rest] f show ?case by simp
qed

text \<open>
  Claim C10: with a single chain (\<open>nchain = 1\<close>, so rank 0), \<open>PTswap\<close> returns
  \<open>swapReturn = 0\<close> and \<open>(p0, lnlike0, lnprob0)\<close> as passed in, with the sampler
  unchanged: it returns so whenever \<open>Tskip\<close> is not zero, and it returns nothing else;
  and after any number of steps of a run that starts with the swap counters at zero,
  \<open>swapProposed\<close> and \<open>nswap_accepted\<close> are zero.
\<close>

theorem single_chain_never_swaps:
  assumes "nchain s = 1" and "MPIrank s < nchain s"
  shows "(Tskip s \<noteq> 0 \<longrightarrow>
            PTswap env s p0 lnlike0 lnprob0 iter = Inr (s, 0, p0, lnlike0, lnprob0)) \<and>
         (\<forall>r. PTswap env s p0 lnlike0 lnprob0 iter = Inr r \<longrightarrow>
            r = (s, 0, p0, lnlike0, lnprob0)) \<and>
         (\<forall>n s' p1 l1 lp1.
            swapProposed s = 0 \<and> nswap_accepted s = 0 \<and>
            run_steps envs n (s, p0, lnlike0, lnprob0) i0 = Inr (s', p1, l1, lp1) \<longrightarrow>
            swapProposed s' = 0 \<and> nswap_accepted s' = 0)"
proof -
  from assms have r0: "MPIrank s = 0" by simp
  show ?thesis
    using PTswap_one_chain[OF assms(1) r0] PTswap_one_chain_returns[OF assms(1) r0]
      run_steps_one_chain[OF assms(1) r0]
    by metis
qed


lemma sampler0_first_step:
  "\<exists>s' p1 l1 lp1.
     PTMCMCOneStep env0 sampler0 [FReal 0] (FReal 0) (FReal 0) 1 = Inr (s', p1, l1, lp1)"
  by (simp add: PTMCMCOneStep_def adapt_def adapt_covariance_def adapt_KDE_def
      adapt_DEbuffer_def adapt_burn_def jump_def hastings_def candidate_def PTswap_def
      swap_accounting_def updateChains_def set_row_def py_set_def py_get_def py_index_def py_mod_def
      int_quotient_def bind_def sampler0_def env0_def Let_def fsub_def)

text \<open>
  Witness for C10: the single chain \<open>sampler0\<close> at iteration 100, a swap iteration, and
  its first step.
\<close>

theorem single_chain_never_swaps_witness:
  "PTswap env0 sampler0 [FReal 0] (FReal 0) (FReal 0) 100
     = Inr (sampler0, 0, [FReal 0], FReal 0, FReal 0) \<and>
   (case run_steps (\<lambda>i. env0) 1 (sampler0, [FReal 0], FReal 0, FReal 0) 0 of
      Inl e \<Rightarrow> False
    | Inr (s', p1, l1, lp1) \<Rightarrow> swapProposed s' = 0 \<and> nswap_accepted s' = 0)"
proof -
  have one: "nchain sampler0 = 1" and rank: "MPIrank sampler0 < nchain sampler0"
    and skip: "Tskip sampler0 \<noteq> 0"
    and zero: "swapProposed sampler0 = 0" "nswap_accepted sampler0 = 0"
    by (simp_all add: sampler0_def)
  note t = single_chain_never_swaps[OF one rank,
      of env0 "[FReal 0]" "FReal 0" "FReal 0" 100 "\<lambda>i. env0" 0]
  from t skip have a: "PTswap env0 sampler0 [FReal 0] (FReal 0) (FReal 0) 100
     = Inr (sampler0, 0, [FReal 0], FReal 0, FReal 0)" by blast
  from sampler0_first_step obtain s' p1 l1 lp1 where
    r: "run_steps (\<lambda>i. env0) 1 (sampler0, [FReal 0], FReal 0, FReal 0) 0 = Inr (s', p1, l1, lp1)"
    by (auto simp: numeral_eq_Suc)
  with t zero have "swapProposed s' = 0 \<and> nswap_accepted s' = 0" by blast
  with a r show ?thesis by simp
qed

lemma welford_step_count:
  "welford_step d A i mem (it, m0, Q0) ii = Inr (it', m1, Q1) \<Longrightarrow> it' = it + 1"
  by (auto simp: welford_step_def bind_def Let_def split: sum.splits prod.splits)

lemma foldE_welford_count:
  "foldE (welford_step d A i mem) (it, m0, Q0) xs = Inr (it', m1, Q1) \<Longrightarrow>
     it' = it + int (length xs)"
proof (induction xs arbitrary: it m0 Q0)
  case Nil
  then show ?case by simp
next
  case (Cons x xs)
  from Cons.prems obtain ita ma Qa where
    st: "welford_step d A i mem (it, m0, Q0) x = Inr (ita, ma, Qa)"
    and rest: "foldE (welford_step d A i mem) (ita, ma, Qa) xs = Inr (it', m1, Q1)"
    by (auto split: sum.splits)
  from welford_step_count[OF st] Cons.IH[OF rest] show ?case by simp
qed

text \<open>
  Claim C6, as the code has it: the recursive update has no test of the new matrix and
  no warning.  Whenever it returns, the covariance is the scatter matrix \<open>M2\<close> divided
  by \<open>it - 1\<close>, where \<open>it\<close> is the number of samples counted, and \<open>U\<close> and \<open>S\<close> are the
  SVD factors of that matrix, whatever the matrix is.
\<close>

theorem updateRecursive_overwrites:
  assumes "updateRecursive svd' d A m0 Q0 i mem = Inr (m1, Q1, cov', U', S')"
  shows "cov' = mdiv Q1 (i - mem + max 0 mem - 1) \<and> svd' cov' = Inr (U', S')"
proof -
  define start where
    "start = (i - mem, if i - mem = 0 then zeros d else m0, if i - mem = 0 then zeros2 d d else Q0)"
  show ?thesis
  proof (cases "foldE (welford_step d A i mem) start (py_range 0 mem)")
    case (Inl e)
    with assms show ?thesis
      by (simp add: updateRecursive_def bind_def Let_def start_def)
  next
    case (Inr st)
    obtain it' ma Qa where st: "st = (it', ma, Qa)" by (cases st)
    from assms Inr st have res: "m1 = ma" "Q1 = Qa" "cov' = mdiv Qa (it' - 1)"
      "svd' (mdiv Qa (it' - 1)) = Inr (U', S')"
      by (auto simp: updateRecursive_def bind_def Let_def start_def split: sum.splits)
    from Inr st have "foldE (welford_step d A i mem)
        (i - mem, if i - mem = 0 then zeros d else m0, if i - mem = 0 then zeros2 d d else Q0)
        (py_range 0 mem) = Inr (it', ma, Qa)"
      by (simp add: start_def)
    from foldE_welford_count[OF this] have "it' = i - mem + max 0 mem"
      by (simp add: length_py_range)
    with res show ?thesis by simp
  qed
qed

lemma psd_one: "psd [[FReal 1]]"
  unfolding psd_def
  by (rule exI[of _ "[[1]]"]) (simp add: quadratic_form_def)

lemma not_psd_nan: "\<not> psd [[FNaN]]"
  by (auto simp: psd_def map_eq_Cons_conv)

lemma first_update_nan:
  "updateRecursive svd' (Suc 0) (replicate 4 [FReal 0]) [FReal 0] [[FReal 0]] 1 1
     = bind (svd' [[FNaN]]) (\<lambda>US. Inr ([FReal 0], [[FReal 0]], [[FNaN]], fst US, snd US))"
  by (simp add: updateRecursive_def welford_step_def welford_component_def bind_def Let_def
      py_range_def py_get_def py_index_def zeros_def zeros2_def vsub_def madd_def outer_def
      mdiv_def fsub_def upto.simps split: sum.splits)

lemma two_sample_update:
  "updateRecursive svd' (Suc 0) [[FReal 0], [FReal 2]] [FReal 5] [[FReal 7]] 2 2
     = bind (svd' [[FReal 2]]) (\<lambda>US. Inr ([FReal 1], [[FReal 2]], [[FReal 2]], fst US, snd US))"
  by (simp add: updateRecursive_def welford_step_def welford_component_def bind_def Let_def
      py_range_def py_get_def py_index_def zeros_def zeros2_def vsub_def madd_def outer_def
      mdiv_def fsub_def upto.simps split: sum.splits)

text \<open>
  Witness for C6: the first update over the two samples 0 and 2 resets the mean and the
  scatter matrix and sets the covariance to \<open>M2/(2-1) = 2\<close>.
\<close>

theorem updateRecursive_overwrites_witness:
  "updateRecursive (svd env0) 1 [[FReal 0], [FReal 2]] [FReal 5] [[FReal 7]] 2 2
     = Inr ([FReal 1], [[FReal 2]], mdiv [[FReal 2]] 1, [[FReal 2]], []) \<and>
   svd env0 (mdiv [[FReal 2]] 1) = Inr ([[FReal 2]], [])"
proof -
  have sv: "svd env0 = (\<lambda>A. Inr (A, []))" by (simp add: env0_def)
  have r: "updateRecursive (svd env0) 1 [[FReal 0], [FReal 2]] [FReal 5] [[FReal 7]] 2 2
     = Inr ([FReal 1], [[FReal 2]], [[FReal 2]], [[FReal 2]], [])"
    using two_sample_update[of "svd env0"] by (simp add: sv bind_def)
  from updateRecursive_overwrites[OF r]
  have "[[FReal 2]] = mdiv [[FReal 2]] (2 - 2 + max 0 2 - 1)"
    and "svd env0 [[FReal 2]] = Inr ([[FReal 2]], [])"
    by simp_all
  then have "mdiv [[FReal 2]] 1 = [[FReal 2]]" "svd env0 (mdiv [[FReal 2]] 1) = Inr ([[FReal 2]], [])"
    by simp_all
  with r show ?thesis by simp
qed

text \<open>
  Counterexample to C6 as stated: with \<open>covUpdate = 1\<close> the update of step 2 counts one
  sample and divides the zero scatter matrix by zero.  The covariance before is the
  positive semi-definite 1.  Whatever the SVD does, either it raises on the new matrix
  and the step ends with that exception, or the step returns with the covariance NaN,
  which is not positive semi-definite; the previous matrix is not retained.
\<close>

theorem covariance_update_counterexample:
  "psd (cov eager_sampler) \<and>
   (\<forall>sv. case adapt_covariance (env0\<lparr>svd := sv\<rparr>) eager_sampler 2 of
           Inl e \<Rightarrow> sv [[FNaN]] = Inl e
         | Inr s' \<Rightarrow> cov s' = [[FNaN]] \<and> \<not> psd (cov s') \<and> cov s' \<noteq> cov eager_sampler)"
proof -
  have flds: "covUpdate eager_sampler = 1" "MPIrank eager_sampler = 0"
    "ndim eager_sampler = Suc 0" "AMbuffer eager_sampler = replicate 4 [FReal 0]"
    "mu eager_sampler = [FReal 0]" "M2 eager_sampler = [[FReal 0]]"
    "cov eager_sampler = [[FReal 1]]"
    by (simp_all add: eager_sampler_def sampler0_def)
  have env: "getCovariance (env0\<lparr>svd := sv\<rparr>) = False" for sv
    by (simp add: env0_def)
  have "case adapt_covariance (env0\<lparr>svd := sv\<rparr>) eager_sampler 2 of
           Inl e \<Rightarrow> sv [[FNaN]] = Inl e
         | Inr s' \<Rightarrow> cov s' = [[FNaN]] \<and> \<not> psd (cov s') \<and> cov s' \<noteq> cov eager_sampler" for sv
    using not_psd_nan
    by (cases "sv [[FNaN]]")
       (simp_all add: adapt_covariance_def flds env bind_def py_mod_def first_update_nan
          split: prod.splits)
  then show ?thesis
    using psd_one by (simp add: flds)
qed

text \<open>The KDE kernel and the cycle.\<close>

lemma add_and_randomize_cycle:
  "add_and_randomize s f w index = Inr s' \<Longrightarrow>
     propCycle s' = propCycle s @ replicate (nat w) f \<and>
     burn s' = burn s \<and> KDEupdate s' = KDEupdate s"
  by (auto simp: add_and_randomize_def bind_def addProposalToCycle_eq split: sum.splits if_splits)

lemma adapt_covariance_cycle:
  "adapt_covariance env s iter = Inr s' \<Longrightarrow>
     propCycle s' = propCycle s \<and> burn s' = burn s \<and> KDEupdate s' = KDEupdate s"
  by (auto simp: adapt_covariance_def bind_def split: sum.splits if_splits prod.splits)

lemma adapt_KDE_cycle:
  assumes "adapt_KDE env s iter = Inr s'" and "burn s mod KDEupdate s \<noteq> 0"
  shows "propCycle s' = propCycle s \<and> burn s' = burn s \<and> KDEupdate s' = KDEupdate s"
proof (cases "iter - 1 = burn s + KDEupdate s")
  case True
  then have "(iter - 1) mod KDEupdate s = burn s mod KDEupdate s" by simp
  with assms show ?thesis
    by (auto simp: adapt_KDE_def bind_def py_mod_def updateKDE_def Let_def split: if_splits)
next
  case False
  with assms show ?thesis
    by (auto simp: adapt_KDE_def bind_def py_mod_def updateKDE_def Let_def split: if_splits)
qed

lemma adapt_DEbuffer_cycle:
  "adapt_DEbuffer env s iter = Inr s' \<Longrightarrow>
     (propCycle s' = propCycle s \<or> (\<exists>w. propCycle s' = propCycle s @ replicate w DEJump)) \<and>
     burn s' = burn s \<and> KDEupdate s' = KDEupdate s"
  by (auto simp: adapt_DEbuffer_def bind_def updateDEbuffer_def Let_def
      split: sum.splits if_splits dest!: add_and_randomize_cycle)

lemma adapt_burn_cycle:
  "adapt_burn env s iter = Inr s' \<Longrightarrow>
     (propCycle s' = propCycle s \<or> (\<exists>w. propCycle s' = propCycle s @ replicate w DEJump)) \<and>
     burn s' = burn s \<and> KDEupdate s' = KDEupdate s"
  by (auto simp: adapt_burn_def split: if_splits dest!: add_and_randomize_cycle)

lemma KDE_not_in_DE_block:
  "KDEJumpProposal \<notin> set c \<Longrightarrow>
   c' = c \<or> (\<exists>w. c' = c @ replicate w DEJump) \<Longrightarrow> KDEJumpProposal \<notin> set c'"
  by auto

lemma adapt_no_KDE:
  assumes "adapt env s iter = Inr s'" and "burn s mod KDEupdate s \<noteq> 0"
    and "KDEJumpProposal \<notin> set (propCycle s)"
  shows "KDEJumpProposal \<notin> set (propCycle s') \<and> burn s' = burn s \<and> KDEupdate s' = KDEupdate s"
proof -
  from assms(1) obtain s1 s2 s3 where
    a: "adapt_covariance env s iter = Inr s1" and b: "adapt_KDE env s1 iter = Inr s2"
    and c: "adapt_DEbuffer env s2 iter = Inr s3" and d: "adapt_burn env s3 iter = Inr s'"
    by (auto simp: adapt_def bind_def split: sum.splits)
  note fa = adapt_covariance_cycle[OF a]
  with assms(2) have "burn s1 mod KDEupdate s1 \<noteq> 0" by simp
  note fb = adapt_KDE_cycle[OF b this]
  note fc = adapt_DEbuffer_cycle[OF c]
  note fd = adapt_burn_cycle[OF d]
  from assms(3) fa fb have "KDEJumpProposal \<notin> set (propCycle s2)" by simp
  with fc have "KDEJumpProposal \<notin> set (propCycle s3)" by (metis KDE_not_in_DE_block)
  with fd have "KDEJumpProposal \<notin> set (propCycle s')" by (metis KDE_not_in_DE_block)
  with fa fb fc fd show ?thesis by simp
qed

lemma jump_cycle:
  "jump env s x iter = Inr (s', y, qxy) \<Longrightarrow>
     propCycle s' = propCycle s \<and> burn s' = burn s \<and> KDEupdate s' = KDEupdate s"
  by (auto simp: jump_def bind_def Let_def split: sum.splits if_splits)

lemma hastings_cycle:
  "hastings env s p0 l0 lp0 y qxy = Inr (s', p1, l1, lp1) \<Longrightarrow>
     propCycle s' = propCycle s \<and> burn s' = burn s \<and> KDEupdate s' = KDEupdate s"
  by (auto simp: hastings_def candidate_def Let_def split: if_splits option.splits)

lemma replay_cycle:
  "replay s iter = Inr (s', p1, l1, lp1) \<Longrightarrow>
     propCycle s' = propCycle s \<and> burn s' = burn s \<and> KDEupdate s' = KDEupdate s"
  by (auto simp: replay_def bind_def split: sum.splits)

lemma PTswap_cycle:
  "PTswap env s p0 l0 lp0 iter = Inr (s', w, p1, l1, lp1) \<Longrightarrow>
     propCycle s' = propCycle s \<and> burn s' = burn s \<and> KDEupdate s' = KDEupdate s"
  by (auto simp: PTswap_def bind_def Let_def split: sum.splits if_splits)

lemma writeToFile_cycle:
  "writeToFile s iter = Inr s' \<Longrightarrow>
     propCycle s' = propCycle s \<and> burn s' = burn s \<and> KDEupdate s' = KDEupdate s"
  by (auto simp: writeToFile_def bind_def split: sum.splits)

lemma updateChains_cycle:
  "updateChains s p0 l0 lp0 iter = Inr s' \<Longrightarrow>
     propCycle s' = propCycle s \<and> burn s' = burn s \<and> KDEupdate s' = KDEupdate s"
  by (auto simp: updateChains_def bind_def Let_def split: sum.splits if_splits
      dest!: writeToFile_cycle)

lemma swap_accounting_cycle:
  "propCycle (swap_accounting s w) = propCycle s \<and> burn (swap_accounting s w) = burn s \<and>
   KDEupdate (swap_accounting s w) = KDEupdate s"
  by (simp add: swap_accounting_def Let_def)

lemma PTMCMCOneStep_no_KDE:
  assumes step: "PTMCMCOneStep env s p0 l0 lp0 iter = Inr (s', p1, l1, lp1)"
    and nd: "burn s mod KDEupdate s \<noteq> 0" and no: "KDEJumpProposal \<notin> set (propCycle s)"
  shows "KDEJumpProposal \<notin> set (propCycle s') \<and> burn s' = burn s \<and> KDEupdate s' = KDEupdate s"
proof -
  from step obtain sa where a: "adapt env s iter = Inr sa"
    by (auto simp: PTMCMCOneStep_def bind_def split: sum.splits)
  note fa = adapt_no_KDE[OF a nd no]
  from step a obtain sb pb lb lpb where
    b: "(if resume sa \<and> resumeLength sa > 0 \<and> iter < resumeLength sa then replay sa iter
         else bind (jump env sa p0 iter) (\<lambda>j. case j of (s2, y, qxy) \<Rightarrow>
                hastings env s2 p0 l0 lp0 y qxy)) = Inr (sb, pb, lb, lpb)"
    by (auto simp: PTMCMCOneStep_def bind_def split: sum.splits)
  have fb: "propCycle sb = propCycle sa \<and> burn sb = burn sa \<and> KDEupdate sb = KDEupdate sa"
  proof (cases "resume sa \<and> resumeLength sa > 0 \<and> iter < resumeLength sa")
    case True
    with b show ?thesis using replay_cycle by auto
  next
    case False
    with b obtain sj y qxy where j: "jump env sa p0 iter = Inr (sj, y, qxy)"
      and h: "hastings env sj p0 l0 lp0 y qxy = Inr (sb, pb, lb, lpb)"
      by (auto simp: bind_def split: sum.splits)
    from jump_cycle[OF j] hastings_cycle[OF h] show ?thesis by simp
  qed
  from step a b obtain sc w pc lc lpc where
    c: "PTswap env sb pb lb lpb iter = Inr (sc, w, pc, lc, lpc)"
    and u: "updateChains (swap_accounting sc w) pc lc lpc iter = Inr s'"
    by (auto simp: PTMCMCOneStep_def bind_def split: sum.splits if_splits)
  from PTswap_cycle[OF c] updateChains_cycle[OF u] swap_accounting_cycle[of sc w] fa fb
  show ?thesis by simp
qed

text \<open>When \<open>burn\<close> is a multiple of \<open>KDEupdate\<close>, the kernel is added in that step.\<close>

lemma adapt_KDE_adds_when_multiple:
  assumes "MPIrank s = 0" "0 < KDEweight s" "KDEupdate s \<noteq> 0"
    and "burn s mod KDEupdate s = 0" "iter - 1 = burn s + KDEupdate s"
    and "adapt_KDE env s iter = Inr s'"
  shows "propCycle s' = propCycle s @ replicate (nat (KDEweight s)) KDEJumpProposal"
proof -
  from assms(4,5) have "(iter - 1) mod KDEupdate s = 0" by simp
  with assms show ?thesis
    by (auto simp: adapt_KDE_def bind_def py_mod_def updateKDE_def Let_def
        add_and_randomize_def addProposalToCycle_eq split: sum.splits if_splits)
qed

text \<open>
  Claim C4, on the code: the KDE kernel is added only in the step with
  \<open>iter - 1 = burn + KDEupdate\<close>, inside the branch guarded by
  \<open>(iter - 1) % KDEupdate == 0\<close>.  When \<open>burn\<close> is not a multiple of \<open>KDEupdate\<close> the
  two never hold together: a cycle without the KDE kernel stays without it after any
  number of steps.
\<close>

theorem KDE_kernel_never_added:
  assumes "burn s mod KDEupdate s \<noteq> 0" and "KDEJumpProposal \<notin> set (propCycle s)"
    and "run_steps envs n (s, p0, l0, lp0) i0 = Inr (s', p1, l1, lp1)"
  shows "KDEJumpProposal \<notin> set (propCycle s')"
  using assms
proof (induction n arbitrary: s p0 l0 lp0 i0)
  case 0
  then show ?case by simp
next
  case (Suc n)
  from Suc.prems(3) obtain sa pa la lpa where
    st: "PTMCMCOneStep (envs (i0 + 1)) s p0 l0 lp0 (i0 + 1) = Inr (sa, pa, la, lpa)"
    and rest: "run_steps envs n (sa, pa, la, lpa) (i0 + 1) = Inr (s', p1, l1, lp1)"
    by (auto split: sum.splits)
  from PTMCMCOneStep_no_KDE[OF st Suc.prems(1,2)] Suc.prems(1)
  have "burn sa mod KDEupdate sa \<noteq> 0" "KDEJumpProposal \<notin> set (propCycle sa)" by simp_all
  from Suc.IH[OF this rest] show ?case .
qed



lemma offset_refit_without_kernel:
  "adapt env0 offset_sampler 10 = Inr (offset_sampler\<lparr>kde := Some [[FReal 5], [FReal 6], [FReal 7], [FReal 8]]\<rparr>)"
  by (simp add: adapt_def adapt_covariance_def adapt_KDE_def adapt_DEbuffer_def adapt_burn_def
      updateKDE_def py_slice_def bind_def py_mod_def offset_sampler_def sampler0_def env0_def Let_def)

lemma offset_first_step:
  "\<exists>s' p1 l1 lp1.
     PTMCMCOneStep env0 offset_sampler [FReal 0] (FReal 0) (FReal 0) 1 = Inr (s', p1, l1, lp1)"
  by (simp add: PTMCMCOneStep_def adapt_def adapt_covariance_def adapt_KDE_def
      adapt_DEbuffer_def adapt_burn_def jump_def hastings_def candidate_def PTswap_def
      swap_accounting_def updateChains_def set_row_def py_set_def py_get_def py_index_def py_mod_def
      int_quotient_def bind_def offset_sampler_def sampler0_def env0_def Let_def fsub_def)

text \<open>
  Witness for C4: \<open>burn = 5\<close> and \<open>KDEupdate = 3\<close> with \<open>KDEweight = 30\<close> on rank 0.  The
  adaptation of step 9 (\<open>iter - 1 = burn + KDEupdate\<close>) changes nothing; that of
  step 10 refits the KDE to the samples 5 to 8 and leaves the cycle without the KDE
  kernel.
\<close>

theorem KDE_kernel_never_added_witness:
  "burn offset_sampler mod KDEupdate offset_sampler = 2 \<and>
   adapt env0 offset_sampler 9 = Inr offset_sampler \<and>
   adapt env0 offset_sampler 10 = Inr (offset_sampler\<lparr>kde := Some [[FReal 5], [FReal 6], [FReal 7], [FReal 8]]\<rparr>) \<and>
   KDEJumpProposal \<notin> set (propCycle (offset_sampler\<lparr>kde := Some [[FReal 5], [FReal 6], [FReal 7], [FReal 8]]\<rparr>)) \<and>
   (case run_steps (\<lambda>i. env0) 1 (offset_sampler, [FReal 0], FReal 0, FReal 0) 0 of
      Inl e \<Rightarrow> False
    | Inr (s', p1, l1, lp1) \<Rightarrow> KDEJumpProposal \<notin> set (propCycle s'))"
proof -
  have nd: "burn offset_sampler mod KDEupdate offset_sampler \<noteq> 0" and m: "burn offset_sampler mod KDEupdate offset_sampler = 2"
    and no: "KDEJumpProposal \<notin> set (propCycle offset_sampler)"
    by (simp_all add: offset_sampler_def sampler0_def)
  have a9: "adapt env0 offset_sampler 9 = Inr offset_sampler"
    by (simp add: adapt_def adapt_covariance_def adapt_KDE_def adapt_DEbuffer_def adapt_burn_def
      bind_def py_mod_def offset_sampler_def sampler0_def env0_def Let_def)
  from offset_first_step obtain s' p1 l1 lp1 where
    r: "run_steps (\<lambda>i. env0) 1 (offset_sampler, [FReal 0], FReal 0, FReal 0) 0 = Inr (s', p1, l1, lp1)"
    by (auto simp: numeral_eq_Suc)
  from KDE_kernel_never_added[OF nd no r] have "KDEJumpProposal \<notin> set (propCycle s')" .
  with r m a9 offset_refit_without_kernel no show ?thesis by simp
qed

lemma class_statement_fails: "class_RJMCMCSampler = Inl NameError"
  by (simp add: class_RJMCMCSampler_def module_globals_def)

lemma methods_raise:
  "RJMCMCSampler = Inl NameError \<and> addSampler r model dm c = Inl NameError \<and>
   constructGaussianKDE r model k = Inl NameError"
  by (simp add: RJMCMCSampler_def addSampler_def constructGaussianKDE_def
      class_statement_fails bind_def)

lemma evaluate_own_dimension:
  assumes "length x = kde_d k" "0 < kde_d k"
  shows "evaluate k x = Inr [density k x]"
proof (cases "kde_d k = 1")
  case True
  with assms(1) obtain c where "x = [c]" by (cases x) auto
  with True show ?thesis by (simp add: evaluate_def)
next
  case False
  with assms show ?thesis by (simp add: evaluate_def)
qed

lemma log_ratio:
  assumes "0 \<le> a" "0 \<le> b"
  shows "flog (fdiv (FReal a) (FReal b)) = fsub (flog (FReal a)) (flog (FReal b))"
proof -
  consider "a = 0" "b = 0" | "a = 0" "0 < b" | "0 < a" "b = 0" | "0 < a" "0 < b"
    using assms by fastforce
  then show ?thesis
  proof cases
    case 4
    then have "0 < a / b" by simp
    then have "\<not> a / b < 0" "a / b \<noteq> 0" by linarith+
    then have "flog (FReal (a / b)) = FReal (ln (a / b))"
      by (simp del: divide_less_0_iff divide_eq_0_iff)
    moreover from 4 have "flog (FReal a) = FReal (ln a)" "flog (FReal b) = FReal (ln b)"
      by simp_all
    ultimately show ?thesis using 4 by (simp add: fsub_def ln_div del: flog.simps)
  qed (simp_all add: fsub_def)
qed

lemma foldl_register:
  "nmodels (foldl register r es) = nmodels r + int (length es) \<and>
   dom (TDJumpDict (foldl register r es)) = dom (TDJumpDict r) \<union> set (map fst es)"
proof (induction es arbitrary: r)
  case Nil
  then show ?case by simp
next
  case (Cons e es)
  obtain model dm c k where e: "e = (model, dm, c, k)" by (cases e)
  have "nmodels (register r e) = nmodels r + 1"
    and "dom (TDJumpDict (register r e)) = insert model (dom (TDJumpDict r))"
    by (simp_all add: register_def addSampler_body_def constructGaussianKDE_body_def e)
  with Cons.IH[of "register r e"] e show ?case by auto
qed

lemma register_all_counts:
  "nmodels (register_all es) = int (length es) \<and>
   dom (TDJumpDict (register_all es)) = set (map fst es)"
  using foldl_register[of init_body es]
  by (simp add: register_all_def init_body_def)

text \<open>
  What the body does when the class exists and the target has the dimension of the
  current model: the draw is one-to-one onto the registered models, and \<open>qxy\<close> is the
  one-element array of \<open>log p(x0) - log p(x1)\<close>, both densities those of the KDE of the
  current model.
\<close>

lemma gaussianKDEJump_body_same_dimension:
  assumes reg: "r = register_all es" "distinct (map fst es)"
    and keys: "distinct keys" "set keys = dom (TDJumpDict r)"
    and draw: "randint_ok 0 (nmodels r) 1 [ind]"
    and origin: "TDJumpDict r m0 = Some k0"
    and target: "TDJumpDict r (keys ! nat ind) = Some k1"
    and dims: "0 < kde_d k0" "length x0 = kde_d k0" "length (resample k1 seed) = kde_d k0"
    and dens: "\<forall>x. \<exists>a\<ge>0. density k0 x = FReal a"
  shows "gaussianKDEJump_body r keys ind seed x0 m0
           = Inr (resample k1 seed, keys ! nat ind,
                  [fsub (flog (density k0 x0)) (flog (density k0 (resample k1 seed)))]) \<and>
         bij_betw (\<lambda>i. keys ! nat i) {0..<nmodels r} (dom (TDJumpDict r))"
proof -
  from reg register_all_counts[of es]
  have n: "nmodels r = int (length es)" and d: "dom (TDJumpDict r) = set (map fst es)"
    by simp_all
  from keys d reg(2) have len: "length keys = length es"
    by (metis distinct_card length_map)
  from draw have ind: "0 \<le> ind" "ind < nmodels r" by (simp_all add: randint_ok_def)
  with n len have lt: "nat ind < length keys" by simp
  from lt ind have get: "py_get keys ind = Inr (keys ! nat ind)"
    by (simp add: py_get_def py_index_def)
  from dens obtain a b where
    a: "density k0 x0 = FReal a" "0 \<le> a"
    and b: "density k0 (resample k1 seed) = FReal b" "0 \<le> b"
    by metis
  from ind have pos: "\<not> 0 \<ge> nmodels r" by simp
  have e0: "evaluate k0 x0 = Inr [FReal a]"
    using evaluate_own_dimension[OF dims(2) dims(1)] a by simp
  have e1: "evaluate k0 (resample k1 seed) = Inr [FReal b]"
    using evaluate_own_dimension[OF dims(3) dims(1)] b by simp
  have run: "gaussianKDEJump_body r keys ind seed x0 m0
      = Inr (resample k1 seed, keys ! nat ind,
             [fsub (flog (density k0 x0)) (flog (density k0 (resample k1 seed)))])"
    using pos
    by (simp add: gaussianKDEJump_body_def get bind_def lookup_def target origin Let_def e0 e1
        broadcast_def a b log_ratio[OF a(2) b(2)] del: flog.simps fdiv.simps)
  have bij: "bij_betw (\<lambda>i. keys ! nat i) {0..<nmodels r} (dom (TDJumpDict r))"
    unfolding bij_betw_def
  proof
    show "inj_on (\<lambda>i. keys ! nat i) {0..<nmodels r}"
    proof (rule inj_onI)
      fix i j assume i: "i \<in> {0..<nmodels r}" and j: "j \<in> {0..<nmodels r}"
        and e: "keys ! nat i = keys ! nat j"
      from i j n len have "nat i < length keys" "nat j < length keys" by auto
      with e keys(1) have "nat i = nat j" by (simp add: nth_eq_iff_index_eq)
      with i j show "i = j" by auto
    qed
    show "(\<lambda>i. keys ! nat i) ` {0..<nmodels r} = dom (TDJumpDict r)"
    proof
      show "(\<lambda>i. keys ! nat i) ` {0..<nmodels r} \<subseteq> dom (TDJumpDict r)"
      proof
        fix m assume "m \<in> (\<lambda>i. keys ! nat i) ` {0..<nmodels r}"
        then obtain i where i: "i \<in> {0..<nmodels r}" and m: "m = keys ! nat i" by blast
        from i n len have "nat i < length keys" by auto
        then have "keys ! nat i \<in> set keys" by (rule nth_mem)
        with m keys(2) show "m \<in> dom (TDJumpDict r)" by simp
      qed
      show "dom (TDJumpDict r) \<subseteq> (\<lambda>i. keys ! nat i) ` {0..<nmodels r}"
      proof
        fix m assume "m \<in> dom (TDJumpDict r)"
        with keys(2) obtain q where q: "q < length keys" "keys ! q = m"
          by (metis in_set_conv_nth)
        with n len have "int q \<in> {0..<nmodels r}" by simp
        moreover have "keys ! nat (int q) = m" using q by simp
        ultimately show "m \<in> (\<lambda>i. keys ! nat i) ` {0..<nmodels r}" by blast
      qed
    qed
  qed
  from run bij show ?thesis by blast
qed

lemma two_models_registered:
  "TDJumpDict (register_all two_models) = [0 \<mapsto> kde_flat, 1 \<mapsto> kde_wide]"
  "nmodels (register_all two_models) = 2"
  by (simp_all add: register_all_def two_models_def register_def addSampler_body_def
      constructGaussianKDE_body_def init_body_def)

text \<open>
  Claim C8, on the code.  The class statement raises \<open>NameError\<close>, so a call of
  \<open>gaussianKDEJump\<close> never returns a proposal.  Past that, the body gives the point
  \<open>x1\<close>, which has the dimension of the target model, to the KDE of the current model:
  from model 1 (dimension 2) to model 0 (dimension 1) \<open>evaluate\<close> raises \<open>ValueError\<close>;
  from model 0 to model 1 \<open>qxy\<close> is an array of two values, one for each component of
  \<open>x1\<close>, not the logarithm of a ratio of two densities.  Only a jump that keeps the
  dimension (here from model 1 to itself) returns the claimed \<open>qxy\<close>.
\<close>

theorem gaussianKDEJump_raises:
  "gaussianKDEJump r keys ind seed x0 m0 = Inl NameError \<and>
   gaussianKDEJump_body (register_all two_models) [0, 1] 0 0 [FReal 0, FReal 0] 1
     = Inl ValueError \<and>
   gaussianKDEJump_body (register_all two_models) [0, 1] 1 0 [FReal 0] 0
     = Inr ([FReal 3, FReal 4], 1, [FReal 0, FReal 0]) \<and>
   gaussianKDEJump_body (register_all two_models) [0, 1] 1 0 [FReal 0, FReal 0] 1
     = Inr ([FReal 3, FReal 4], 1, [FReal 0])"
proof (intro conjI)
  show "gaussianKDEJump r keys ind seed x0 m0 = Inl NameError"
    by (simp add: gaussianKDEJump_def class_statement_fails bind_def)
  show "gaussianKDEJump_body (register_all two_models) [0, 1] 0 0 [FReal 0, FReal 0] 1
     = Inl ValueError"
    by (simp add: gaussianKDEJump_body_def two_models_registered bind_def lookup_def
        py_get_def py_index_def evaluate_def kde_flat_def kde_wide_def Let_def)
  show "gaussianKDEJump_body (register_all two_models) [0, 1] 1 0 [FReal 0] 0
     = Inr ([FReal 3, FReal 4], 1, [FReal 0, FReal 0])"
    by (simp add: gaussianKDEJump_body_def two_models_registered bind_def lookup_def
        py_get_def py_index_def evaluate_def broadcast_def kde_flat_def kde_wide_def Let_def)
  show "gaussianKDEJump_body (register_all two_models) [0, 1] 1 0 [FReal 0, FReal 0] 1
     = Inr ([FReal 3, FReal 4], 1, [FReal 0])"
    by (simp add: gaussianKDEJump_body_def two_models_registered bind_def lookup_def
        py_get_def py_index_def evaluate_def broadcast_def kde_flat_def kde_wide_def Let_def)
qed

end
